theory Spec2Isabelle
  imports Main
begin

section \<open>TurboModuleManager.cpp: the TurboModule resolver, its cache and callback retention\<close>

text \<open>
  The file under verification defines the constructor of \<^verbatim>\<open>TurboModuleManager\<close>,
  \<^verbatim>\<open>installJSIBindings\<close> and, inside it, the lambda \<^verbatim>\<open>turboModuleProvider\<close> that the
  JavaScript runtime calls with a module name. The embedding is shallow: every object the
  C++ code reaches through a pointer is a value, \<^verbatim>\<open>nullptr\<close> is \<open>None\<close>, the objects the lambda
  mutates or calls (the cache, the perf logger, the delegate, the Java manager) are threaded
  through an explicit state, and every call that leaves the lambda is recorded in a trace.
\<close>

subsection \<open>Handles and module objects\<close>

text \<open>
  Opaque objects are identified by a number (their address): call invokers, the
  \<^verbatim>\<open>CxxModuleWrapper\<close> returned by \<^verbatim>\<open>getLegacyCxxModule\<close>, the \<^verbatim>\<open>JTurboModule\<close> returned by
  \<^verbatim>\<open>getJavaModule\<close>, a \<^verbatim>\<open>jsi::Function\<close> callback and a \<^verbatim>\<open>LongLivedObjectCollection\<close>.
\<close>

type_synonym call_invoker = nat
type_synonym cxx_module_wrapper = nat
type_synonym jturbo_module = nat
type_synonym jsi_function = nat
type_synonym collection_ref = nat

text \<open>
  The two lambdas the constructor can store in \<^verbatim>\<open>retainJSCallback_\<close>. The first captures
  nothing, the second captures the manager's collection. An empty \<^verbatim>\<open>std::function\<close> is \<open>None\<close>.
\<close>

datatype retain_js_callback =
    RetainGlobal
  | RetainInCollection collection_ref

text \<open>
  A non-null \<^verbatim>\<open>std::shared_ptr<TurboModule>\<close>. Equality of these values is pointer equality:
  a module handed out by the delegate is known by its address only; a \<^verbatim>\<open>TurboCxxModule\<close> made
  by \<^verbatim>\<open>std::make_shared\<close> in the lambda carries the number of its allocation together with its
  two constructor arguments (the wrapper whose \<^verbatim>\<open>getModule()\<close> it owns, and the JS invoker).
\<close>

datatype turbo_module =
    DelegateModule nat
  | TurboCxxModule nat cxx_module_wrapper call_invoker

text \<open>\<^verbatim>\<open>JavaTurboModule::InitParams\<close>, with the five fields the lambda fills in.\<close>

record init_params =
  params_moduleName :: string
  params_instance :: jturbo_module
  params_jsInvoker :: call_invoker
  params_nativeInvoker :: call_invoker
  params_retainJSCallback :: "retain_js_callback option"

subsection \<open>External collaborators\<close>

text \<open>
  The delegate and the Java part of the manager are not defined in this file: they are
  parameters. Their methods may have effects of their own and may answer differently from
  call to call, so each takes and returns a state \<open>'w\<close> of the outside world.
  \<open>getTurboModule\<close> is \<^verbatim>\<open>delegate->cthis()->getTurboModule(name, jsCallInvoker)\<close>,
  \<open>getTurboModuleJava\<close> is the overload \<^verbatim>\<open>getTurboModule(name, params)\<close>.
\<close>

record 'w delegate_obj =
  getTurboModule :: "string \<Rightarrow> call_invoker \<Rightarrow> 'w \<Rightarrow> turbo_module option \<times> 'w"
  getTurboModuleJava :: "string \<Rightarrow> init_params \<Rightarrow> 'w \<Rightarrow> turbo_module option \<times> 'w"

record 'w java_part_obj =
  getLegacyCxxModule :: "string \<Rightarrow> 'w \<Rightarrow> cxx_module_wrapper option \<times> 'w"
  getJavaModule :: "string \<Rightarrow> 'w \<Rightarrow> jturbo_module option \<times> 'w"

subsection \<open>The module cache\<close>

text \<open>
  Modelled from the spec: the type \<^verbatim>\<open>TurboModuleCache\<close> is declared in TurboModuleManager.h,
  which is not among the sources. Section 4.1 of the specification gives its contract,
  that of a \<^verbatim>\<open>std::unordered_map\<close> from names to module pointers: \<open>find\<close> returns the entry
  of a name if there is one, \<open>insert\<close> adds an entry for a name that has none and does nothing
  for a name that has one. A stored pointer may be null, hence the \<open>option\<close> in the range.
\<close>

type_synonym turbo_module_cache = "string \<rightharpoonup> turbo_module option"

definition cache_find :: "turbo_module_cache \<Rightarrow> string \<Rightarrow> turbo_module option option" where
  "cache_find c name = c name"

definition cache_insert ::
  "turbo_module_cache \<Rightarrow> string \<Rightarrow> turbo_module option \<Rightarrow> turbo_module_cache" where
  "cache_insert c name m = (case c name of None \<Rightarrow> c(name \<mapsto> m) | Some _ \<Rightarrow> c)"

subsection \<open>Effects\<close>

text \<open>The five \<^verbatim>\<open>TurboModulePerfLogger\<close> functions the lambda calls.\<close>

datatype perf_event =
    ModuleJSRequireBeginningStart string
  | ModuleJSRequireBeginningCacheHit string
  | ModuleJSRequireBeginningEnd string
  | ModuleJSRequireEndingStart string
  | ModuleJSRequireEndingEnd string

text \<open>A call leaving the lambda: the object called and the method with its arguments.\<close>

datatype callee = Delegate | JavaPart

datatype provider_call =
    GetTurboModule string call_invoker
  | GetTurboModuleJava string init_params
  | GetLegacyCxxModule string
  | GetJavaModule string

datatype event =
    PerfLog perf_event
  | Call callee provider_call
  | CacheInsert string "turbo_module option"

text \<open>
  The state a lookup runs in. The first five fields say what each weak reference captured
  by the lambda locks to at this moment (\<open>None\<close> when its object has been destroyed, or when
  the pointer it was made from was null); \<open>world\<close> is the state of the collaborators,
  \<open>trace\<close> the effects so far, oldest first, and \<open>allocated\<close> counts the
  \<^verbatim>\<open>TurboCxxModule\<close> objects made so far.
\<close>

record 'w resolver_state =
  weak_turboModuleCache :: "turbo_module_cache option"
  weak_jsCallInvoker :: "call_invoker option"
  weak_nativeCallInvoker :: "call_invoker option"
  weak_delegate :: "'w delegate_obj option"
  weak_javaPart :: "'w java_part_obj option"
  world :: 'w
  trace :: "event list"
  allocated :: nat

definition emit :: "event \<Rightarrow> 'w resolver_state \<Rightarrow> 'w resolver_state" where
  "emit e s = s\<lparr>trace := trace s @ [e]\<rparr>"

text \<open>\<^verbatim>\<open>turboModuleCache->insert({name, m})\<close> on the locked cache.\<close>

definition insert_module ::
  "string \<Rightarrow> turbo_module option \<Rightarrow> 'w resolver_state \<Rightarrow> 'w resolver_state" where
  "insert_module name m s =
     emit (CacheInsert name m)
       (s\<lparr>weak_turboModuleCache :=
            map_option (\<lambda>c. cache_insert c name m) (weak_turboModuleCache s)\<rparr>)"

subsection \<open>The lambda \<^verbatim>\<open>turboModuleProvider\<close>\<close>

text \<open>
  The argument \<open>retain\<close> is the copy of \<^verbatim>\<open>retainJSCallback_\<close> the lambda captured by value.
  The result is the returned pointer and the state after the call. The two \<^verbatim>\<open>static\<close> method
  handles (\<^verbatim>\<open>getMethod<...>("getLegacyCxxModule")\<close>, \<^verbatim>\<open>"getJavaModule"\<close>) are looked up once and
  have no effect on a lookup; calling them on \<^verbatim>\<open>javaPart.get()\<close> is a call of the Java part.
\<close>

definition turboModuleProvider ::
  "retain_js_callback option \<Rightarrow> string \<Rightarrow> 'w resolver_state
     \<Rightarrow> turbo_module option \<times> 'w resolver_state" where
  "turboModuleProvider retain name s =
    (if weak_turboModuleCache s = None \<or> weak_jsCallInvoker s = None
        \<or> weak_nativeCallInvoker s = None \<or> weak_delegate s = None
        \<or> weak_javaPart s = None
     then (None, s)
     else
       let turboModuleCache = the (weak_turboModuleCache s);
           jsCallInvoker = the (weak_jsCallInvoker s);
           nativeCallInvoker = the (weak_nativeCallInvoker s);
           delegate = the (weak_delegate s);
           javaPart = the (weak_javaPart s);
           s1 = emit (PerfLog (ModuleJSRequireBeginningStart name)) s
       in
       (case cache_find turboModuleCache name of
         Some turboModuleLookup \<Rightarrow>
           (turboModuleLookup,
            emit (PerfLog (ModuleJSRequireBeginningEnd name))
              (emit (PerfLog (ModuleJSRequireBeginningCacheHit name)) s1))
       | None \<Rightarrow>
           (let s2 = emit (PerfLog (ModuleJSRequireBeginningEnd name)) s1;
                (cxxModule, w3) = getTurboModule delegate name jsCallInvoker (world s2);
                s3 = emit (Call Delegate (GetTurboModule name jsCallInvoker)) (s2\<lparr>world := w3\<rparr>)
            in
            if cxxModule \<noteq> None then (cxxModule, insert_module name cxxModule s3)
            else
              (let (legacyCxxModule, w4) = getLegacyCxxModule javaPart name (world s3);
                   s4 = emit (Call JavaPart (GetLegacyCxxModule name)) (s3\<lparr>world := w4\<rparr>)
               in
               (case legacyCxxModule of
                 Some wrapper \<Rightarrow>
                   (let s5 = emit (PerfLog (ModuleJSRequireEndingStart name)) s4;
                        turboModule = Some (TurboCxxModule (allocated s5) wrapper jsCallInvoker);
                        s6 = insert_module name turboModule (s5\<lparr>allocated := Suc (allocated s5)\<rparr>)
                    in (turboModule, emit (PerfLog (ModuleJSRequireEndingEnd name)) s6))
               | None \<Rightarrow>
                   (let (moduleInstance, w5) = getJavaModule javaPart name (world s4);
                        s5 = emit (Call JavaPart (GetJavaModule name)) (s4\<lparr>world := w5\<rparr>)
                    in
                    (case moduleInstance of
                      Some inst \<Rightarrow>
                        (let s6 = emit (PerfLog (ModuleJSRequireEndingStart name)) s5;
                             params = \<lparr>params_moduleName = name,
                                       params_instance = inst,
                                       params_jsInvoker = jsCallInvoker,
                                       params_nativeInvoker = nativeCallInvoker,
                                       params_retainJSCallback = retain\<rparr>;
                             (turboModule, w7) =
                               getTurboModuleJava delegate name params (world s6);
                             s7 = emit (Call Delegate (GetTurboModuleJava name params))
                                    (s6\<lparr>world := w7\<rparr>);
                             s8 = insert_module name turboModule s7
                         in (turboModule, emit (PerfLog (ModuleJSRequireEndingEnd name)) s8))
                    | None \<Rightarrow> (None, s5))))))))"

subsection \<open>Sequences of lookups\<close>

text \<open>
  Between two lookups the owner of a captured object may drop it; from then on the weak
  reference to it no longer locks. A run is a list of such actions, oldest first.
\<close>

datatype captured =
    TheTurboModuleCache
  | TheJsCallInvoker
  | TheNativeCallInvoker
  | TheDelegate
  | TheJavaPart

fun destroy :: "captured \<Rightarrow> 'w resolver_state \<Rightarrow> 'w resolver_state" where
  "destroy TheTurboModuleCache s = s\<lparr>weak_turboModuleCache := None\<rparr>"
| "destroy TheJsCallInvoker s = s\<lparr>weak_jsCallInvoker := None\<rparr>"
| "destroy TheNativeCallInvoker s = s\<lparr>weak_nativeCallInvoker := None\<rparr>"
| "destroy TheDelegate s = s\<lparr>weak_delegate := None\<rparr>"
| "destroy TheJavaPart s = s\<lparr>weak_javaPart := None\<rparr>"

datatype action = Lookup string | Destroy captured

fun step :: "retain_js_callback option \<Rightarrow> action \<Rightarrow> 'w resolver_state \<Rightarrow> 'w resolver_state" where
  "step retain (Lookup name) s = snd (turboModuleProvider retain name s)"
| "step retain (Destroy x) s = destroy x s"

fun run :: "retain_js_callback option \<Rightarrow> action list \<Rightarrow> 'w resolver_state \<Rightarrow> 'w resolver_state" where
  "run retain [] s = s"
| "run retain (a # as) s = run retain as (step retain a s)"

text \<open>The effects recorded between an earlier state and a later one.\<close>

definition new_events :: "'w resolver_state \<Rightarrow> 'w resolver_state \<Rightarrow> event list" where
  "new_events s s' = drop (length (trace s)) (trace s')"

text \<open>The calls of \<^verbatim>\<open>insert\<close> for a name among a list of effects, and their number.\<close>

fun is_insert :: "string \<Rightarrow> event \<Rightarrow> bool" where
  "is_insert name (CacheInsert k m) = (k = name)"
| "is_insert name _ = False"

definition inserts_of :: "string \<Rightarrow> event list \<Rightarrow> nat" where
  "inserts_of name evs = length (filter (is_insert name) evs)"

text \<open>
  Whether the entry of a name can still change: it cannot once the name is in the cache,
  nor once the cache is gone.
\<close>

definition entry_fixed :: "string \<Rightarrow> 'w resolver_state \<Rightarrow> bool" where
  "entry_fixed name s =
     (case weak_turboModuleCache s of None \<Rightarrow> True | Some c \<Rightarrow> cache_find c name \<noteq> None)"

subsection \<open>The constructor and \<^verbatim>\<open>installJSIBindings\<close>\<close>

text \<open>
  A \<^verbatim>\<open>CallbackWrapper\<close>: the callback, the runtime and the invoker it was made from. The heap
  of long-lived object collections holds the process-wide collection
  (\<^verbatim>\<open>LongLivedObjectCollection::get()\<close>) and the collections made by \<^verbatim>\<open>std::make_shared\<close>,
  each with the wrappers registered in it, oldest first.
\<close>

type_synonym callback_wrapper = "jsi_function \<times> nat \<times> call_invoker"

record retention_heap =
  nextCollection :: collection_ref
  ownedCollections :: "collection_ref \<rightharpoonup> callback_wrapper list"
  globalCollection :: "callback_wrapper list"

text \<open>\<^verbatim>\<open>std::make_shared<LongLivedObjectCollection>()\<close>: a new, empty collection.\<close>

definition make_collection :: "retention_heap \<Rightarrow> collection_ref \<times> retention_heap" where
  "make_collection h =
     (nextCollection h,
      h\<lparr>nextCollection := Suc (nextCollection h),
        ownedCollections := (ownedCollections h)(nextCollection h \<mapsto> [])\<rparr>)"

text \<open>
  Modelled from the spec: \<^verbatim>\<open>CallbackWrapper::createWeak\<close> is defined in ReactCommon, outside
  the sources. By section 4.4 of the specification a callback retained under the
  manager-scoped strategy is registered in the manager's own collection, and one retained
  under the global strategy is registered in the process-wide collection. The first
  argument is the collection passed to the four-argument overload, \<open>None\<close> for the
  three-argument overload.
\<close>

definition createWeak ::
  "collection_ref option \<Rightarrow> jsi_function \<Rightarrow> nat \<Rightarrow> call_invoker \<Rightarrow> retention_heap
     \<Rightarrow> callback_wrapper \<times> retention_heap" where
  "createWeak collection callback runtime jsInvoker h =
     (let wrapper = (callback, runtime, jsInvoker) in
      case collection of
        None \<Rightarrow> (wrapper, h\<lparr>globalCollection := globalCollection h @ [wrapper]\<rparr>)
      | Some c \<Rightarrow>
          (wrapper,
           h\<lparr>ownedCollections := (ownedCollections h)
                (c \<mapsto> (case ownedCollections h c of None \<Rightarrow> [wrapper]
                          | Some ws \<Rightarrow> ws @ [wrapper]))\<rparr>))"

text \<open>Calling the stored \<^verbatim>\<open>retainJSCallback_\<close>: the bodies of the constructor's two lambdas.\<close>

fun call_retainJSCallback ::
  "retain_js_callback \<Rightarrow> jsi_function \<Rightarrow> nat \<Rightarrow> call_invoker \<Rightarrow> retention_heap
     \<Rightarrow> callback_wrapper \<times> retention_heap" where
  "call_retainJSCallback RetainGlobal callback runtime jsInvoker h =
     createWeak None callback runtime jsInvoker h"
| "call_retainJSCallback (RetainInCollection longLivedObjectCollection) callback runtime jsInvoker h =
     createWeak (Some longLivedObjectCollection) callback runtime jsInvoker h"

text \<open>
  The members of \<^verbatim>\<open>TurboModuleManager\<close> (\<^verbatim>\<open>javaPart_\<close> is \<open>this_javaPart\<close>, and so on). The
  two invokers are shared pointers and may be null. \<^verbatim>\<open>longLivedObjectCollection_\<close> and
  \<^verbatim>\<open>retainJSCallback_\<close> have no initialiser in the constructor: they start null and empty.
\<close>

record 'w turbo_module_manager =
  this_javaPart :: "'w java_part_obj"
  this_runtimeExecutor :: nat
  this_jsCallInvoker :: "call_invoker option"
  this_nativeCallInvoker :: "call_invoker option"
  this_delegate :: "'w delegate_obj"
  this_turboModuleCache :: turbo_module_cache
  this_longLivedObjectCollection :: "collection_ref option"
  this_retainJSCallback :: "retain_js_callback option"

definition TurboModuleManager ::
  "'w java_part_obj \<Rightarrow> nat \<Rightarrow> call_invoker option \<Rightarrow> call_invoker option \<Rightarrow> 'w delegate_obj
     \<Rightarrow> bool \<Rightarrow> bool \<Rightarrow> retention_heap \<Rightarrow> 'w turbo_module_manager \<times> retention_heap" where
  "TurboModuleManager jThis runtimeExecutor jsCallInvoker nativeCallInvoker delegate
       useGlobalCallbackCleanupScopeUsingRetainJSCallback
       useTurboModuleManagerCallbackCleanupScope h =
     (let this = \<lparr>this_javaPart = jThis,
                  this_runtimeExecutor = runtimeExecutor,
                  this_jsCallInvoker = jsCallInvoker,
                  this_nativeCallInvoker = nativeCallInvoker,
                  this_delegate = delegate,
                  this_turboModuleCache = Map.empty,
                  this_longLivedObjectCollection = None,
                  this_retainJSCallback = None\<rparr>
      in
      if useGlobalCallbackCleanupScopeUsingRetainJSCallback then
        (this\<lparr>this_longLivedObjectCollection := None,
              this_retainJSCallback := Some RetainGlobal\<rparr>, h)
      else if useTurboModuleManagerCallbackCleanupScope then
        (let (collection, h') = make_collection h in
         (this\<lparr>this_longLivedObjectCollection := Some collection,
               this_retainJSCallback := Some (RetainInCollection collection)\<rparr>, h'))
      else (this, h))"

text \<open>
  \<^verbatim>\<open>installJSIBindings\<close> returns early when there is no JS invoker; otherwise it asks the
  runtime executor to hand \<^verbatim>\<open>TurboModuleBinding::install\<close> the lambda, whose only capture by value
  is \<^verbatim>\<open>retainJSCallback_\<close>, and the manager's collection. The result is what is installed.
\<close>

record binding =
  provider_retainJSCallback :: "retain_js_callback option"
  binding_longLivedObjectCollection :: "collection_ref option"

definition installJSIBindings :: "'w turbo_module_manager \<Rightarrow> binding option" where
  "installJSIBindings this =
     (if this_jsCallInvoker this = None then None
      else Some \<lparr>provider_retainJSCallback = this_retainJSCallback this,
                 binding_longLivedObjectCollection = this_longLivedObjectCollection this\<rparr>)"

text \<open>
  The state in which the installed lambda first runs: each weak reference locks to the
  member it was made from, nothing has been recorded or allocated.
\<close>

definition captured_state :: "'w turbo_module_manager \<Rightarrow> 'w \<Rightarrow> 'w resolver_state" where
  "captured_state this w =
     \<lparr>weak_turboModuleCache = Some (this_turboModuleCache this),
      weak_jsCallInvoker = this_jsCallInvoker this,
      weak_nativeCallInvoker = this_nativeCallInvoker this,
      weak_delegate = Some (this_delegate this),
      weak_javaPart = Some (this_javaPart this),
      world = w, trace = [], allocated = 0\<rparr>"

text \<open>The \<^verbatim>\<open>InitParams\<close> of the calls of \<^verbatim>\<open>getTurboModule(name, params)\<close> in a list of effects.\<close>

fun init_params_of :: "event list \<Rightarrow> init_params list" where
  "init_params_of [] = []"
| "init_params_of (Call c (GetTurboModuleJava name params) # evs) = params # init_params_of evs"
| "init_params_of (e # evs) = init_params_of evs"

subsection \<open>A concrete configuration\<close>

text \<open>
  Collaborators for the worked examples. The world is a counter: the delegate builds a new
  module, at the address given by the counter, each time it answers. It serves \<open>Foo\<close>
  natively and builds a module for every Java instance except that of \<open>Null\<close>; the Java part
  knows the legacy modules \<open>Foo\<close> and \<open>Legacy\<close> and the Java modules \<open>Bar\<close> and \<open>Null\<close>.
\<close>

definition demo_delegate :: "nat delegate_obj" where
  "demo_delegate =
     \<lparr>getTurboModule = (\<lambda>name js w.
         if name = ''Foo'' then (Some (DelegateModule w), Suc w) else (None, w)),
      getTurboModuleJava = (\<lambda>name params w.
         if name = ''Null'' then (None, w) else (Some (DelegateModule w), Suc w))\<rparr>"

definition demo_javaPart :: "nat java_part_obj" where
  "demo_javaPart =
     \<lparr>getLegacyCxxModule = (\<lambda>name w.
         if name = ''Foo'' \<or> name = ''Legacy'' then (Some 40, w) else (None, w)),
      getJavaModule = (\<lambda>name w.
         if name = ''Bar'' \<or> name = ''Null'' then (Some 50, w) else (None, w))\<rparr>"

definition demo_heap :: retention_heap where
  "demo_heap = \<lparr>nextCollection = 0, ownedCollections = Map.empty, globalCollection = []\<rparr>"

definition demo_manager :: "bool \<Rightarrow> bool \<Rightarrow> nat turbo_module_manager \<times> retention_heap" where
  "demo_manager useGlobal useScoped =
     TurboModuleManager demo_javaPart 9 (Some 1) (Some 2) demo_delegate useGlobal useScoped demo_heap"

definition demo_state :: "nat resolver_state" where
  "demo_state = captured_state (fst (demo_manager False False)) 100"

text \<open>The perf-logger calls among a list of effects, in order.\<close>

fun perf_events :: "event list \<Rightarrow> perf_event list" where
  "perf_events [] = []"
| "perf_events (PerfLog p # evs) = p # perf_events evs"
| "perf_events (e # evs) = perf_events evs"

text \<open>A Java part that knows no module at all.\<close>

definition demo_silent_javaPart :: "nat java_part_obj" where
  "demo_silent_javaPart =
     \<lparr>getLegacyCxxModule = (\<lambda>name w. (None, w)), getJavaModule = (\<lambda>name w. (None, w))\<rparr>"

section \<open>Properties of a single lookup\<close>

text \<open>
  The lemmas of this section describe each path through the lambda by the pointer it returns
  and the state it leaves; the later sections combine them.
\<close>

lemmas provider_unfold = turboModuleProvider_def Let_def emit_def insert_module_def
  cache_find_def cache_insert_def

lemma provider_unlocked:
  "weak_turboModuleCache s = None \<or> weak_jsCallInvoker s = None
     \<or> weak_nativeCallInvoker s = None \<or> weak_delegate s = None \<or> weak_javaPart s = None
   \<Longrightarrow> turboModuleProvider r n s = (None, s)"
  by (simp add: turboModuleProvider_def)

lemma provider_hit:
  assumes "weak_turboModuleCache s = Some c" "weak_jsCallInvoker s = Some js"
    "weak_nativeCallInvoker s = Some nt" "weak_delegate s = Some d" "weak_javaPart s = Some jp"
    "c n = Some v"
  shows "turboModuleProvider r n s =
    (v, s\<lparr>trace := trace s @ [PerfLog (ModuleJSRequireBeginningStart n),
          PerfLog (ModuleJSRequireBeginningCacheHit n), PerfLog (ModuleJSRequireBeginningEnd n)]\<rparr>)"
  using assms by (simp add: provider_unfold)

lemma provider_native:
  assumes "weak_turboModuleCache s = Some c" "weak_jsCallInvoker s = Some js"
    "weak_nativeCallInvoker s = Some nt" "weak_delegate s = Some d" "weak_javaPart s = Some jp"
    "c n = None" "getTurboModule d n js (world s) = (Some m, w1)"
  shows "turboModuleProvider r n s =
    (Some m, s\<lparr>weak_turboModuleCache := Some (c(n \<mapsto> Some m)), world := w1,
       trace := trace s @ [PerfLog (ModuleJSRequireBeginningStart n),
          PerfLog (ModuleJSRequireBeginningEnd n), Call Delegate (GetTurboModule n js),
          CacheInsert n (Some m)]\<rparr>)"
  using assms by (simp add: provider_unfold)

lemma provider_legacy:
  assumes "weak_turboModuleCache s = Some c" "weak_jsCallInvoker s = Some js"
    "weak_nativeCallInvoker s = Some nt" "weak_delegate s = Some d" "weak_javaPart s = Some jp"
    "c n = None" "getTurboModule d n js (world s) = (None, w1)"
    "getLegacyCxxModule jp n w1 = (Some l, w2)"
  shows "turboModuleProvider r n s =
    (Some (TurboCxxModule (allocated s) l js),
     s\<lparr>weak_turboModuleCache := Some (c(n \<mapsto> Some (TurboCxxModule (allocated s) l js))),
       world := w2,
       trace := trace s @ [PerfLog (ModuleJSRequireBeginningStart n),
          PerfLog (ModuleJSRequireBeginningEnd n), Call Delegate (GetTurboModule n js),
          Call JavaPart (GetLegacyCxxModule n), PerfLog (ModuleJSRequireEndingStart n),
          CacheInsert n (Some (TurboCxxModule (allocated s) l js)),
          PerfLog (ModuleJSRequireEndingEnd n)],
       allocated := Suc (allocated s)\<rparr>)"
  using assms by (simp add: provider_unfold)

lemma provider_managed:
  assumes "weak_turboModuleCache s = Some c" "weak_jsCallInvoker s = Some js"
    "weak_nativeCallInvoker s = Some nt" "weak_delegate s = Some d" "weak_javaPart s = Some jp"
    "c n = None" "getTurboModule d n js (world s) = (None, w1)"
    "getLegacyCxxModule jp n w1 = (None, w2)"
    "getJavaModule jp n w2 = (Some i, w3)"
    "p = \<lparr>params_moduleName = n, params_instance = i, params_jsInvoker = js,
        params_nativeInvoker = nt, params_retainJSCallback = r\<rparr>"
    "getTurboModuleJava d n p w3 = (tm, w4)"
  shows "turboModuleProvider r n s =
    (tm,
     s\<lparr>weak_turboModuleCache := Some (c(n \<mapsto> tm)),
       world := w4,
       trace := trace s @ [PerfLog (ModuleJSRequireBeginningStart n),
          PerfLog (ModuleJSRequireBeginningEnd n), Call Delegate (GetTurboModule n js),
          Call JavaPart (GetLegacyCxxModule n), Call JavaPart (GetJavaModule n),
          PerfLog (ModuleJSRequireEndingStart n),
          Call Delegate (GetTurboModuleJava n p),
          CacheInsert n tm,
          PerfLog (ModuleJSRequireEndingEnd n)]\<rparr>)"
  using assms by (simp add: provider_unfold)

lemma provider_not_found:
  assumes "weak_turboModuleCache s = Some c" "weak_jsCallInvoker s = Some js"
    "weak_nativeCallInvoker s = Some nt" "weak_delegate s = Some d" "weak_javaPart s = Some jp"
    "c n = None" "getTurboModule d n js (world s) = (None, w1)"
    "getLegacyCxxModule jp n w1 = (None, w2)"
    "getJavaModule jp n w2 = (None, w3)"
  shows "turboModuleProvider r n s =
    (None,
     s\<lparr>world := w3,
       trace := trace s @ [PerfLog (ModuleJSRequireBeginningStart n),
          PerfLog (ModuleJSRequireBeginningEnd n), Call Delegate (GetTurboModule n js),
          Call JavaPart (GetLegacyCxxModule n), Call JavaPart (GetJavaModule n)]\<rparr>)"
  using assms by (simp add: provider_unfold)



lemma provider_weak_refs:
  "turboModuleProvider r n s = (res, s') \<Longrightarrow>
     weak_jsCallInvoker s' = weak_jsCallInvoker s \<and>
     weak_nativeCallInvoker s' = weak_nativeCallInvoker s \<and>
     weak_delegate s' = weak_delegate s \<and>
     weak_javaPart s' = weak_javaPart s"
  by (auto simp: provider_unfold split: option.splits prod.splits if_splits)

lemma provider_trace:
  "turboModuleProvider r n s = (res, s') \<Longrightarrow> \<exists>evs. trace s' = trace s @ evs"
  by (auto simp: provider_unfold split: option.splits prod.splits if_splits)

lemma provider_cache_grows:
  "turboModuleProvider r n s = (res, s') \<Longrightarrow> weak_turboModuleCache s' = Some c' \<Longrightarrow>
     \<exists>c. weak_turboModuleCache s = Some c \<and> (\<forall>k v. c k = Some v \<longrightarrow> c' k = Some v)
        \<and> (\<forall>k. k \<noteq> n \<longrightarrow> c' k = c k)"
  by (auto simp: provider_unfold split: option.splits prod.splits if_splits)

lemma provider_cache_alive:
  "turboModuleProvider r n s = (res, s') \<Longrightarrow>
     (weak_turboModuleCache s' = None) = (weak_turboModuleCache s = None)"
  by (auto simp: provider_unfold split: option.splits prod.splits if_splits)

lemma provider_result_cached:
  "turboModuleProvider r n s = (Some m, s') \<Longrightarrow>
     \<exists>c'. weak_turboModuleCache s' = Some c' \<and> c' n = Some (Some m)"
  by (auto simp: provider_unfold split: option.splits prod.splits if_splits)

lemma provider_inserts:
  "turboModuleProvider r n s = (res, s') \<Longrightarrow>
     \<exists>evs. trace s' = trace s @ evs \<and>
       (\<forall>k. k \<noteq> n \<longrightarrow> inserts_of k evs = 0) \<and>
       inserts_of n evs \<le> 1 \<and>
       (inserts_of n evs = 1 \<longrightarrow>
          (\<exists>c c'. weak_turboModuleCache s = Some c \<and> c n = None \<and>
             weak_turboModuleCache s' = Some c' \<and> c' n \<noteq> None))"
  by (auto simp: provider_unfold inserts_of_def split: option.splits prod.splits if_splits)



lemma run_append: "run r (as @ bs) s = run r bs (run r as s)"
  by (induction as arbitrary: s) simp_all

lemma step_trace: "\<exists>evs. trace (step r a s) = trace s @ evs"
proof (cases a)
  case (Lookup n)
  obtain res s' where "turboModuleProvider r n s = (res, s')" by (cases "turboModuleProvider r n s")
  with Lookup show ?thesis using provider_trace by fastforce
next
  case (Destroy x)
  then show ?thesis by (cases x) simp_all
qed

lemma run_trace: "\<exists>evs. trace (run r as s) = trace s @ evs"
proof (induction as arbitrary: s)
  case Nil
  show ?case by simp
next
  case (Cons a as)
  obtain e1 where e1: "trace (step r a s) = trace s @ e1" using step_trace by blast
  obtain e2 where "trace (run r as (step r a s)) = trace (step r a s) @ e2"
    using Cons.IH by blast
  with e1 show ?case by simp
qed

lemma new_events_trans:
  assumes "trace s1 = trace s0 @ e1" "trace s2 = trace s1 @ e2"
  shows "new_events s0 s2 = new_events s0 s1 @ new_events s1 s2"
  using assms by (simp add: new_events_def)

lemma inserts_of_append: "inserts_of n (xs @ ys) = inserts_of n xs + inserts_of n ys"
  by (simp add: inserts_of_def)

lemma step_cache_grows:
  assumes "weak_turboModuleCache (step r a s) = Some c'"
  shows "\<exists>c. weak_turboModuleCache s = Some c \<and> (\<forall>k v. c k = Some v \<longrightarrow> c' k = Some v)"
proof (cases a)
  case (Lookup n)
  obtain res s' where p: "turboModuleProvider r n s = (res, s')"
    by (cases "turboModuleProvider r n s")
  with Lookup assms have "weak_turboModuleCache s' = Some c'" by simp
  from provider_cache_grows[OF p this] show ?thesis by blast
next
  case (Destroy x)
  with assms show ?thesis by (cases x) simp_all
qed

lemma run_cache_grows:
  "weak_turboModuleCache (run r as s) = Some c' \<Longrightarrow>
     \<exists>c. weak_turboModuleCache s = Some c \<and> (\<forall>k v. c k = Some v \<longrightarrow> c' k = Some v)"
proof (induction as arbitrary: s)
  case Nil
  then show ?case by simp
next
  case (Cons a as)
  from Cons.prems have "weak_turboModuleCache (run r as (step r a s)) = Some c'" by simp
  from Cons.IH[OF this] obtain c1 where
    c1: "weak_turboModuleCache (step r a s) = Some c1" "\<forall>k v. c1 k = Some v \<longrightarrow> c' k = Some v"
    by blast
  from step_cache_grows[OF c1(1)] obtain c where
    "weak_turboModuleCache s = Some c" "\<forall>k v. c k = Some v \<longrightarrow> c1 k = Some v" by blast
  with c1(2) show ?case by blast
qed

lemma step_inserts:
  "inserts_of n (new_events s (step r a s)) \<le> 1 \<and>
   (inserts_of n (new_events s (step r a s)) = 1 \<longrightarrow> entry_fixed n (step r a s)) \<and>
   (entry_fixed n s \<longrightarrow>
      inserts_of n (new_events s (step r a s)) = 0 \<and> entry_fixed n (step r a s))"
proof (cases a)
  case (Lookup k)
  obtain res s' where p: "turboModuleProvider r k s = (res, s')"
    by (cases "turboModuleProvider r k s")
  from provider_inserts[OF p] obtain evs where evs: "trace s' = trace s @ evs"
    "\<forall>j. j \<noteq> k \<longrightarrow> inserts_of j evs = 0" "inserts_of k evs \<le> 1"
    "inserts_of k evs = 1 \<longrightarrow>
          (\<exists>c c'. weak_turboModuleCache s = Some c \<and> c k = None \<and>
             weak_turboModuleCache s' = Some c' \<and> c' k \<noteq> None)" by blast
  have ne: "new_events s s' = evs" using evs(1) by (simp add: new_events_def)
  have fixed: "entry_fixed n s \<Longrightarrow> entry_fixed n s'"
    using provider_cache_grows[OF p] by (fastforce simp: entry_fixed_def cache_find_def split: option.splits)
  show ?thesis
  proof (cases "n = k")
    case True
    have "entry_fixed n s \<Longrightarrow> inserts_of k evs = 0"
      using evs(3,4) True by (cases "inserts_of k evs = 1") (auto simp: entry_fixed_def cache_find_def)
    moreover have "inserts_of k evs = 1 \<Longrightarrow> entry_fixed n s'"
      using evs(4) True by (auto simp: entry_fixed_def cache_find_def)
    ultimately show ?thesis using Lookup p ne evs(3) True fixed by auto
  next
    case False
    then show ?thesis using Lookup p ne evs(2) fixed by auto
  qed
next
  case (Destroy x)
  then show ?thesis
    by (cases x) (auto simp: new_events_def inserts_of_def entry_fixed_def split: option.splits)
qed

lemma run_inserts_fixed:
  "entry_fixed n s \<Longrightarrow> inserts_of n (new_events s (run r as s)) = 0"
proof (induction as arbitrary: s)
  case Nil
  show ?case by (simp add: new_events_def inserts_of_def)
next
  case (Cons a as)
  let ?s1 = "step r a s"
  obtain e1 where e1: "trace ?s1 = trace s @ e1" using step_trace by blast
  obtain e2 where e2: "trace (run r as ?s1) = trace ?s1 @ e2" using run_trace by blast
  have "inserts_of n (new_events s ?s1) = 0" "entry_fixed n ?s1"
    using step_inserts[of n s r a] Cons.prems by auto
  moreover from Cons.IH[OF this(2)] have "inserts_of n (new_events ?s1 (run r as ?s1)) = 0" .
  ultimately show ?case
    using new_events_trans[OF e1 e2] by (simp add: inserts_of_append)
qed

lemma run_inserts: "inserts_of n (new_events s (run r as s)) \<le> 1"
proof (induction as arbitrary: s)
  case Nil
  show ?case by (simp add: new_events_def inserts_of_def)
next
  case (Cons a as)
  let ?s1 = "step r a s"
  obtain e1 where e1: "trace ?s1 = trace s @ e1" using step_trace by blast
  obtain e2 where e2: "trace (run r as ?s1) = trace ?s1 @ e2" using run_trace by blast
  have split: "inserts_of n (new_events s (run r (a # as) s)) =
     inserts_of n (new_events s ?s1) + inserts_of n (new_events ?s1 (run r as ?s1))"
    using new_events_trans[OF e1 e2] by (simp add: inserts_of_append)
  show ?case
  proof (cases "inserts_of n (new_events s ?s1) = 1")
    case True
    then have "entry_fixed n ?s1" using step_inserts[of n s r a] by blast
    from run_inserts_fixed[OF this] True split show ?thesis by simp
  next
    case False
    then have "inserts_of n (new_events s ?s1) = 0" using step_inserts[of n s r a] by linarith
    with Cons.IH[of ?s1] split show ?thesis by simp
  qed
qed

lemmas demo_unfold = demo_state_def demo_manager_def demo_delegate_def demo_javaPart_def
  demo_heap_def captured_state_def TurboModuleManager_def

lemma provider_some_locked:
  "turboModuleProvider r n s = (Some m, s') \<Longrightarrow>
     \<exists>c js nt d jp. weak_turboModuleCache s = Some c \<and> weak_jsCallInvoker s = Some js \<and>
       weak_nativeCallInvoker s = Some nt \<and> weak_delegate s = Some d \<and> weak_javaPart s = Some jp"
  by (cases "weak_turboModuleCache s"; cases "weak_jsCallInvoker s";
      cases "weak_nativeCallInvoker s"; cases "weak_delegate s"; cases "weak_javaPart s")
     (simp_all add: turboModuleProvider_def)

lemma demo_foo:
  "turboModuleProvider None ''Foo'' demo_state =
     (Some (DelegateModule 100),
      demo_state\<lparr>weak_turboModuleCache := Some [''Foo'' \<mapsto> Some (DelegateModule 100)],
        world := 101,
        trace := [PerfLog (ModuleJSRequireBeginningStart ''Foo''),
          PerfLog (ModuleJSRequireBeginningEnd ''Foo''), Call Delegate (GetTurboModule ''Foo'' 1),
          CacheInsert ''Foo'' (Some (DelegateModule 100))]\<rparr>)"
  by (simp add: demo_unfold provider_unfold)

lemma demo_locked:
  "weak_turboModuleCache demo_state = Some Map.empty"
  "weak_jsCallInvoker demo_state = Some 1" "weak_nativeCallInvoker demo_state = Some 2"
  "weak_delegate demo_state = Some demo_delegate" "weak_javaPart demo_state = Some demo_javaPart"
  by (simp_all add: demo_state_def demo_manager_def captured_state_def TurboModuleManager_def)

lemma demo_legacy:
  "turboModuleProvider None ''Legacy'' demo_state =
     (Some (TurboCxxModule 0 40 1),
      demo_state\<lparr>weak_turboModuleCache := Some [''Legacy'' \<mapsto> Some (TurboCxxModule 0 40 1)],
        trace := [PerfLog (ModuleJSRequireBeginningStart ''Legacy''),
          PerfLog (ModuleJSRequireBeginningEnd ''Legacy''),
          Call Delegate (GetTurboModule ''Legacy'' 1),
          Call JavaPart (GetLegacyCxxModule ''Legacy''),
          PerfLog (ModuleJSRequireEndingStart ''Legacy''),
          CacheInsert ''Legacy'' (Some (TurboCxxModule 0 40 1)),
          PerfLog (ModuleJSRequireEndingEnd ''Legacy'')],
        allocated := 1\<rparr>)"
  by (simp add: demo_unfold provider_unfold)

lemma demo_after_foo:
  "weak_turboModuleCache (snd (turboModuleProvider None ''Foo'' demo_state))
     = Some [''Foo'' \<mapsto> Some (DelegateModule 100)]"
  by (simp add: demo_foo)

lemma demo_scoped_manager:
  "this_retainJSCallback (fst (demo_manager False True)) = Some (RetainInCollection 0)"
  "this_longLivedObjectCollection (fst (demo_manager False True)) = Some 0"
  "snd (demo_manager False True) =
     \<lparr>nextCollection = 1, ownedCollections = [0 \<mapsto> []], globalCollection = []\<rparr>"
  by (simp_all add: demo_manager_def TurboModuleManager_def make_collection_def demo_heap_def)

lemma provider_perf_shapes:
  "perf_events (new_events s (snd (turboModuleProvider r N s))) \<in>
     {[],
      [ModuleJSRequireBeginningStart N, ModuleJSRequireBeginningCacheHit N,
       ModuleJSRequireBeginningEnd N],
      [ModuleJSRequireBeginningStart N, ModuleJSRequireBeginningEnd N],
      [ModuleJSRequireBeginningStart N, ModuleJSRequireBeginningEnd N,
       ModuleJSRequireEndingStart N, ModuleJSRequireEndingEnd N]}"
  by (auto simp: provider_unfold new_events_def split: option.splits prod.splits if_splits)

text \<open>The effects of a lookup on each path after the guard, and when the guard fails.\<close>

lemma events_unlocked:
  assumes "weak_turboModuleCache t = None \<or> weak_jsCallInvoker t = None
     \<or> weak_nativeCallInvoker t = None \<or> weak_delegate t = None \<or> weak_javaPart t = None"
  shows "new_events t (snd (turboModuleProvider r N t)) = []"
  using provider_unlocked[OF assms, of r N] by (simp add: new_events_def)

lemma events_hit:
  assumes "weak_turboModuleCache t = Some ct" "weak_jsCallInvoker t = Some jst"
    "weak_nativeCallInvoker t = Some ntt" "weak_delegate t = Some dt"
    "weak_javaPart t = Some jpt"
    and "cache_find ct N = Some found"
  shows "new_events t (snd (turboModuleProvider r N t)) =
     [PerfLog (ModuleJSRequireBeginningStart N), PerfLog (ModuleJSRequireBeginningCacheHit N),
      PerfLog (ModuleJSRequireBeginningEnd N)]"
proof -
  from assms(6) have "ct N = Some found" by (simp add: cache_find_def)
  from provider_hit[OF assms(1-5) this, of r] show ?thesis by (simp add: new_events_def)
qed

lemma events_legacy:
  assumes "weak_turboModuleCache t = Some ct" "weak_jsCallInvoker t = Some jst"
    "weak_nativeCallInvoker t = Some ntt" "weak_delegate t = Some dt"
    "weak_javaPart t = Some jpt"
    and "cache_find ct N = None"
    and "getTurboModule dt N jst (world t) = (None, v1)"
    and "getLegacyCxxModule jpt N v1 = (Some legacyCxxModule, v2)"
  shows "new_events t (snd (turboModuleProvider r N t)) =
     [PerfLog (ModuleJSRequireBeginningStart N), PerfLog (ModuleJSRequireBeginningEnd N),
      Call Delegate (GetTurboModule N jst), Call JavaPart (GetLegacyCxxModule N),
      PerfLog (ModuleJSRequireEndingStart N),
      CacheInsert N (Some (TurboCxxModule (allocated t) legacyCxxModule jst)),
      PerfLog (ModuleJSRequireEndingEnd N)]"
proof -
  from assms(6) have "ct N = None" by (simp add: cache_find_def)
  from provider_legacy[OF assms(1-5) this assms(7,8), of r] show ?thesis
    by (simp add: new_events_def)
qed

lemma events_managed:
  assumes "weak_turboModuleCache t = Some ct" "weak_jsCallInvoker t = Some jst"
    "weak_nativeCallInvoker t = Some ntt" "weak_delegate t = Some dt"
    "weak_javaPart t = Some jpt"
    and "cache_find ct N = None"
    and "getTurboModule dt N jst (world t) = (None, v1)"
    and "getLegacyCxxModule jpt N v1 = (None, v2)"
    and "getJavaModule jpt N v2 = (Some moduleInstance, v3)"
    and "getTurboModuleJava dt N
          \<lparr>params_moduleName = N, params_instance = moduleInstance,
           params_jsInvoker = jst, params_nativeInvoker = ntt,
           params_retainJSCallback = r\<rparr> v3 = (turboModule, v4)"
  shows "new_events t (snd (turboModuleProvider r N t)) =
     [PerfLog (ModuleJSRequireBeginningStart N), PerfLog (ModuleJSRequireBeginningEnd N),
      Call Delegate (GetTurboModule N jst), Call JavaPart (GetLegacyCxxModule N),
      Call JavaPart (GetJavaModule N),
      PerfLog (ModuleJSRequireEndingStart N),
      Call Delegate (GetTurboModuleJava N
        \<lparr>params_moduleName = N, params_instance = moduleInstance,
         params_jsInvoker = jst, params_nativeInvoker = ntt,
         params_retainJSCallback = r\<rparr>),
      CacheInsert N turboModule,
      PerfLog (ModuleJSRequireEndingEnd N)]"
proof -
  from assms(6) have "ct N = None" by (simp add: cache_find_def)
  from provider_managed[OF assms(1-5) this assms(7,8,9) refl assms(10)] show ?thesis
    by (simp add: new_events_def)
qed

lemma events_not_found:
  assumes "weak_turboModuleCache t = Some ct" "weak_jsCallInvoker t = Some jst"
    "weak_nativeCallInvoker t = Some ntt" "weak_delegate t = Some dt"
    "weak_javaPart t = Some jpt"
    and "cache_find ct N = None"
    and "getTurboModule dt N jst (world t) = (None, v1)"
    and "getLegacyCxxModule jpt N v1 = (None, v2)"
    and "getJavaModule jpt N v2 = (None, v3)"
  shows "new_events t (snd (turboModuleProvider r N t)) =
     [PerfLog (ModuleJSRequireBeginningStart N), PerfLog (ModuleJSRequireBeginningEnd N),
      Call Delegate (GetTurboModule N jst), Call JavaPart (GetLegacyCxxModule N),
      Call JavaPart (GetJavaModule N)]"
proof -
  from assms(6) have "ct N = None" by (simp add: cache_find_def)
  from provider_not_found[OF assms(1-5) this assms(7,8,9), of r] show ?thesis
    by (simp add: new_events_def)
qed

lemma init_params_of_append:
  "init_params_of (xs @ ys) = init_params_of xs @ init_params_of ys"
  by (induction xs rule: init_params_of.induct) simp_all

lemma provider_init_params:
  "\<forall>p \<in> set (init_params_of (new_events s (snd (turboModuleProvider r n s)))).
     params_retainJSCallback p = r"
  by (auto simp: provider_unfold new_events_def split: option.splits prod.splits if_splits)

lemma step_init_params:
  "\<forall>p \<in> set (init_params_of (new_events s (step r a s))). params_retainJSCallback p = r"
proof (cases a)
  case (Lookup n)
  then show ?thesis using provider_init_params[of s r n] by simp
next
  case (Destroy x)
  then show ?thesis by (cases x) (simp_all add: new_events_def)
qed

lemma run_init_params:
  "\<forall>p \<in> set (init_params_of (new_events s (run r as s))). params_retainJSCallback p = r"
proof (induction as arbitrary: s)
  case Nil
  show ?case by (simp add: new_events_def)
next
  case (Cons a as)
  let ?s1 = "step r a s"
  obtain e1 where e1: "trace ?s1 = trace s @ e1" using step_trace by blast
  obtain e2 where e2: "trace (run r as ?s1) = trace ?s1 @ e2" using run_trace by blast
  have "new_events s (run r (a # as) s) = new_events s ?s1 @ new_events ?s1 (run r as ?s1)"
    using new_events_trans[OF e1 e2] by simp
  then show ?case using step_init_params[of s r a] Cons.IH[of ?s1]
    by (auto simp: init_params_of_append)
qed

lemma miss_invariant:
  assumes "weak_turboModuleCache s = Some c" "weak_jsCallInvoker s = Some js"
    "weak_nativeCallInvoker s = Some nt" "weak_delegate s = Some d" "weak_javaPart s = Some jp"
    and "c N = None"
    and "\<forall>w. fst (getTurboModule d N js w) = None"
    and "\<forall>w. fst (getLegacyCxxModule jp N w) = None"
    and "\<forall>w. fst (getJavaModule jp N w) = None"
  shows "\<exists>c'. weak_turboModuleCache (run r (map Lookup ns) s) = Some c' \<and> c' N = None
    \<and> weak_jsCallInvoker (run r (map Lookup ns) s) = Some js
    \<and> weak_nativeCallInvoker (run r (map Lookup ns) s) = Some nt
    \<and> weak_delegate (run r (map Lookup ns) s) = Some d
    \<and> weak_javaPart (run r (map Lookup ns) s) = Some jp"
  using assms(1-6)
proof (induction ns arbitrary: s c)
  case Nil
  then show ?case by simp
next
  case (Cons k ns)
  obtain res s' where p: "turboModuleProvider r k s = (res, s')"
    by (cases "turboModuleProvider r k s")
  from provider_weak_refs[OF p] Cons.prems have refs:
    "weak_jsCallInvoker s' = Some js" "weak_nativeCallInvoker s' = Some nt"
    "weak_delegate s' = Some d" "weak_javaPart s' = Some jp" by simp_all
  from provider_cache_alive[OF p] Cons.prems(1) obtain c' where
    c': "weak_turboModuleCache s' = Some c'" by auto
  have "c' N = None"
  proof (cases "k = N")
    case True
    obtain w1 where w1: "getTurboModule d N js (world s) = (None, w1)"
      using assms(7) by (metis prod.collapse)
    obtain w2 where w2: "getLegacyCxxModule jp N w1 = (None, w2)"
      using assms(8) by (metis prod.collapse)
    obtain w3 where w3: "getJavaModule jp N w2 = (None, w3)"
      using assms(9) by (metis prod.collapse)
    from provider_not_found[OF Cons.prems(1-5) Cons.prems(6) w1 w2 w3, of r] p True c'
      Cons.prems(1,6)
    show ?thesis by auto
  next
    case False
    with provider_cache_grows[OF p c'] Cons.prems(1,6) show ?thesis by auto
  qed
  from Cons.IH[OF c' refs this] p show ?case by simp
qed

section \<open>Single instantiation\<close>

text \<open>
  Claim C1. Take any run of lookups and teardown actions, then a lookup of \<open>N\<close> that returns a
  module \<open>m\<close>, then any further run, then another lookup of \<open>N\<close> that returns a module. The
  second lookup returns the very same \<open>m\<close>; it finds \<open>N\<close> in the cache, bound to \<open>m\<close>; the only
  effects it records are the three perf events of the cache-hit path, so it calls no
  provider and leaves the collaborators' state alone; and over the whole history the cache
  insert was called at most once for \<open>N\<close>.
\<close>

theorem single_instantiation:
  assumes first: "turboModuleProvider r N (run r as s) = (Some m, s1)"
    and later: "turboModuleProvider r N (run r bs s1) = (Some m', s2)"
  shows "m' = m
    \<and> (\<exists>c. weak_turboModuleCache (run r bs s1) = Some c \<and> cache_find c N = Some (Some m))
    \<and> new_events (run r bs s1) s2 =
        [PerfLog (ModuleJSRequireBeginningStart N), PerfLog (ModuleJSRequireBeginningCacheHit N),
         PerfLog (ModuleJSRequireBeginningEnd N)]
    \<and> world s2 = world (run r bs s1)
    \<and> inserts_of N (new_events s s2) \<le> 1"
proof -
  let ?t = "run r bs s1"
  from provider_result_cached[OF first] obtain c1 where
    c1: "weak_turboModuleCache s1 = Some c1" "c1 N = Some (Some m)" by blast
  from provider_some_locked[OF later] obtain c js nt d jp where
    locked: "weak_turboModuleCache ?t = Some c" "weak_jsCallInvoker ?t = Some js"
      "weak_nativeCallInvoker ?t = Some nt" "weak_delegate ?t = Some d"
      "weak_javaPart ?t = Some jp" by blast
  from run_cache_grows[OF locked(1)] c1 have hit: "c N = Some (Some m)" by auto
  from provider_hit[OF locked hit, of r] later have
    res: "m' = m" and s2: "s2 = ?t\<lparr>trace := trace ?t @
       [PerfLog (ModuleJSRequireBeginningStart N), PerfLog (ModuleJSRequireBeginningCacheHit N),
        PerfLog (ModuleJSRequireBeginningEnd N)]\<rparr>" by simp_all
  have "s1 = run r (as @ [Lookup N]) s" using first by (simp add: run_append)
  then have "?t = run r (as @ [Lookup N] @ bs) s" by (simp add: run_append)
  then have "s2 = run r ((as @ [Lookup N] @ bs) @ [Lookup N]) s"
    using later by (simp add: run_append)
  then have "inserts_of N (new_events s s2) \<le> 1" using run_inserts by metis
  then show ?thesis using res s2 locked(1) hit
    by (simp add: new_events_def cache_find_def)
qed

theorem single_instantiation_witness:
  "fst (turboModuleProvider None ''Foo'' demo_state) = Some (DelegateModule 100)
   \<and> fst (turboModuleProvider None ''Foo''
        (run None [Lookup ''Bar''] (snd (turboModuleProvider None ''Foo'' demo_state))))
     = Some (DelegateModule 100)
   \<and> inserts_of ''Foo'' (new_events demo_state (snd (turboModuleProvider None ''Foo''
        (run None [Lookup ''Bar''] (snd (turboModuleProvider None ''Foo'' demo_state)))))) \<le> 1"
proof -
  let ?s1 = "snd (turboModuleProvider None ''Foo'' demo_state)"
  let ?p2 = "turboModuleProvider None ''Foo'' (run None [Lookup ''Bar''] ?s1)"
  have f1: "fst (turboModuleProvider None ''Foo'' demo_state) = Some (DelegateModule 100)"
    by (simp add: demo_foo)
  have f2: "fst ?p2 = Some (DelegateModule 100)"
    by (simp add: demo_foo) (simp add: demo_unfold provider_unfold)
  have h1: "turboModuleProvider None ''Foo'' (run None [] demo_state)
      = (Some (DelegateModule 100), ?s1)"
    using f1 by (simp add: prod_eq_iff)
  have h2: "?p2 = (Some (DelegateModule 100), snd ?p2)"
    using f2 by (simp add: prod_eq_iff)
  have "inserts_of ''Foo'' (new_events demo_state (snd ?p2)) \<le> 1"
    using single_instantiation[OF h1 h2] by blast
  with f1 f2 show ?thesis by blast
qed

section \<open>Priority of the native fast path\<close>

text \<open>
  Claim C2. Let all five weak references lock and let \<open>N\<close> be absent from the cache. The first
  provider asked is the delegate's \<^verbatim>\<open>getTurboModule(name, jsCallInvoker)\<close>; when it answers with
  a module \<open>m\<close>, the lookup returns \<open>m\<close> and leaves \<open>m\<close> in the cache under \<open>N\<close>. The effects of
  the lookup are the two perf events, that one call and the insert: neither
  \<^verbatim>\<open>getLegacyCxxModule\<close> nor \<^verbatim>\<open>getJavaModule\<close> is called, whatever they would have answered.
\<close>

theorem native_fast_path_first:
  assumes "weak_turboModuleCache s = Some c" "weak_jsCallInvoker s = Some js"
    "weak_nativeCallInvoker s = Some nt" "weak_delegate s = Some d" "weak_javaPart s = Some jp"
    and miss: "cache_find c N = None"
    and native: "getTurboModule d N js (world s) = (Some m, w1)"
  shows "turboModuleProvider r N s =
    (Some m,
     s\<lparr>weak_turboModuleCache := Some (cache_insert c N (Some m)),
       world := w1,
       trace := trace s @
         [PerfLog (ModuleJSRequireBeginningStart N), PerfLog (ModuleJSRequireBeginningEnd N),
          Call Delegate (GetTurboModule N js), CacheInsert N (Some m)]\<rparr>)
    \<and> cache_find (cache_insert c N (Some m)) N = Some (Some m)"
proof -
  from miss have "c N = None" by (simp add: cache_find_def)
  from provider_native[OF assms(1-5) this native, of r] this show ?thesis
    by (simp add: cache_insert_def cache_find_def)
qed

theorem native_fast_path_first_witness:
  "turboModuleProvider None ''Foo'' demo_state =
    (Some (DelegateModule 100),
     demo_state\<lparr>weak_turboModuleCache := Some (cache_insert Map.empty ''Foo'' (Some (DelegateModule 100))),
       world := 101,
       trace := trace demo_state @
         [PerfLog (ModuleJSRequireBeginningStart ''Foo''),
          PerfLog (ModuleJSRequireBeginningEnd ''Foo''),
          Call Delegate (GetTurboModule ''Foo'' 1),
          CacheInsert ''Foo'' (Some (DelegateModule 100))]\<rparr>)
   \<and> fst (getLegacyCxxModule demo_javaPart ''Foo'' 100) = Some 40"
proof -
  have miss: "cache_find Map.empty ''Foo'' = None" by (simp add: cache_find_def)
  have native: "getTurboModule demo_delegate ''Foo'' 1 (world demo_state)
      = (Some (DelegateModule 100), 101)"
    by (simp add: demo_unfold)
  have "fst (getLegacyCxxModule demo_javaPart ''Foo'' 100) = Some 40"
    by (simp add: demo_javaPart_def)
  with native_fast_path_first[OF demo_locked miss native, of None] show ?thesis by blast
qed

section \<open>The lifetime guard\<close>

text \<open>
  Claim C3. If any one of the five weak references (cache, JS invoker, native invoker,
  delegate, Java part) fails to lock, the lookup returns the null pointer and the state is
  exactly what it was: nothing is recorded, so no provider is called and nothing is inserted,
  the cache is unchanged and so is the state of the collaborators.
\<close>

theorem lifetime_guard_fail_safe:
  assumes "weak_turboModuleCache s = None \<or> weak_jsCallInvoker s = None
     \<or> weak_nativeCallInvoker s = None \<or> weak_delegate s = None \<or> weak_javaPart s = None"
  shows "turboModuleProvider r N s = (None, s)
     \<and> new_events s (snd (turboModuleProvider r N s)) = []
     \<and> weak_turboModuleCache (snd (turboModuleProvider r N s)) = weak_turboModuleCache s
     \<and> world (snd (turboModuleProvider r N s)) = world s"
  using provider_unlocked[OF assms, of r N] by (simp add: new_events_def)

theorem lifetime_guard_fail_safe_witness:
  "weak_delegate (destroy TheDelegate demo_state) = None
   \<and> weak_javaPart (destroy TheDelegate demo_state) = Some demo_javaPart
   \<and> turboModuleProvider None ''Foo'' (destroy TheDelegate demo_state)
       = (None, destroy TheDelegate demo_state)
   \<and> new_events (destroy TheDelegate demo_state)
       (snd (turboModuleProvider None ''Foo'' (destroy TheDelegate demo_state))) = []"
proof -
  let ?s = "destroy TheDelegate demo_state"
  have d: "weak_delegate ?s = None" by simp
  then have "weak_turboModuleCache ?s = None \<or> weak_jsCallInvoker ?s = None
     \<or> weak_nativeCallInvoker ?s = None \<or> weak_delegate ?s = None \<or> weak_javaPart ?s = None"
    by blast
  from lifetime_guard_fail_safe[OF this, of None "''Foo''"]
  have "turboModuleProvider None ''Foo'' ?s = (None, ?s)"
    "new_events ?s (snd (turboModuleProvider None ''Foo'' ?s)) = []" by blast+
  moreover have "weak_javaPart ?s = Some demo_javaPart"
    by (simp add: demo_state_def demo_manager_def captured_state_def TurboModuleManager_def)
  ultimately show ?thesis using d by blast
qed

section \<open>Misses are not cached\<close>

text \<open>
  Claim C4. Let all five weak references lock, let \<open>N\<close> be absent from the cache, and let the
  three providers answer empty for \<open>N\<close> whatever the state of the outside world. Then after any
  sequence \<open>ns\<close> of earlier lookups (of \<open>N\<close> or of other names) a lookup of \<open>N\<close> returns the
  null pointer, asks the three providers again, in order, and leaves \<open>N\<close> absent from the
  cache.
\<close>

theorem idempotent_miss:
  assumes "weak_turboModuleCache s = Some c" "weak_jsCallInvoker s = Some js"
    "weak_nativeCallInvoker s = Some nt" "weak_delegate s = Some d" "weak_javaPart s = Some jp"
    and absent: "cache_find c N = None"
    and native: "\<forall>w. fst (getTurboModule d N js w) = None"
    and legacy: "\<forall>w. fst (getLegacyCxxModule jp N w) = None"
    and managed: "\<forall>w. fst (getJavaModule jp N w) = None"
  shows "fst (turboModuleProvider r N (run r (map Lookup ns) s)) = None
    \<and> new_events (run r (map Lookup ns) s)
         (snd (turboModuleProvider r N (run r (map Lookup ns) s))) =
        [PerfLog (ModuleJSRequireBeginningStart N), PerfLog (ModuleJSRequireBeginningEnd N),
         Call Delegate (GetTurboModule N js), Call JavaPart (GetLegacyCxxModule N),
         Call JavaPart (GetJavaModule N)]
    \<and> (\<exists>c'. weak_turboModuleCache (snd (turboModuleProvider r N (run r (map Lookup ns) s)))
            = Some c' \<and> cache_find c' N = None)"
proof -
  let ?t = "run r (map Lookup ns) s"
  from absent have "c N = None" by (simp add: cache_find_def)
  from miss_invariant[OF assms(1-5) this native legacy managed, of r ns] obtain c' where
    t: "weak_turboModuleCache ?t = Some c'" "c' N = None" "weak_jsCallInvoker ?t = Some js"
      "weak_nativeCallInvoker ?t = Some nt" "weak_delegate ?t = Some d"
      "weak_javaPart ?t = Some jp" by blast
  obtain w1 where w1: "getTurboModule d N js (world ?t) = (None, w1)"
    using native by (metis prod.collapse)
  obtain w2 where w2: "getLegacyCxxModule jp N w1 = (None, w2)"
    using legacy by (metis prod.collapse)
  obtain w3 where w3: "getJavaModule jp N w2 = (None, w3)"
    using managed by (metis prod.collapse)
  from provider_not_found[OF t(1,3,4,5,6) t(2) w1 w2 w3, of r] t(1,2)
  show ?thesis by (simp add: new_events_def cache_find_def)
qed

theorem idempotent_miss_witness:
  "fst (turboModuleProvider None ''Nope''
      (run None (map Lookup [''Nope'', ''Foo'', ''Nope'']) demo_state)) = None
   \<and> new_events (run None (map Lookup [''Nope'', ''Foo'', ''Nope'']) demo_state)
        (snd (turboModuleProvider None ''Nope''
           (run None (map Lookup [''Nope'', ''Foo'', ''Nope'']) demo_state))) =
       [PerfLog (ModuleJSRequireBeginningStart ''Nope''),
        PerfLog (ModuleJSRequireBeginningEnd ''Nope''),
        Call Delegate (GetTurboModule ''Nope'' 1), Call JavaPart (GetLegacyCxxModule ''Nope''),
        Call JavaPart (GetJavaModule ''Nope'')]"
proof -
  have absent: "cache_find Map.empty ''Nope'' = None" by (simp add: cache_find_def)
  have n: "\<forall>w. fst (getTurboModule demo_delegate ''Nope'' 1 w) = None"
    by (simp add: demo_delegate_def)
  have g: "\<forall>w. fst (getLegacyCxxModule demo_javaPart ''Nope'' w) = None"
    by (simp add: demo_javaPart_def)
  have j: "\<forall>w. fst (getJavaModule demo_javaPart ''Nope'' w) = None"
    by (simp add: demo_javaPart_def)
  from idempotent_miss[OF demo_locked absent n g j, of None "[''Nope'', ''Foo'', ''Nope'']"]
  show ?thesis by blast
qed

section \<open>The cache is written once per name\<close>

text \<open>
  Claim C5. Over any run of lookups and teardown actions the cache insert is called at most
  once for a name \<open>N\<close>; as long as the cache exists, every entry it had at the start is still
  there at the end with the same value (entries are neither overwritten nor removed); and
  inserting under a name that is present leaves the cache as it is.
\<close>

theorem write_once_cache:
  "inserts_of N (new_events s (run r as s)) \<le> 1
   \<and> (\<forall>c'. weak_turboModuleCache (run r as s) = Some c' \<longrightarrow>
         (\<exists>c. weak_turboModuleCache s = Some c
            \<and> (\<forall>k v. cache_find c k = Some v \<longrightarrow> cache_find c' k = Some v)))
   \<and> (\<forall>c v m. cache_find c N = Some v \<longrightarrow> cache_insert c N m = c)"
proof -
  have "\<exists>c. weak_turboModuleCache s = Some c
            \<and> (\<forall>k v. cache_find c k = Some v \<longrightarrow> cache_find c' k = Some v)"
    if "weak_turboModuleCache (run r as s) = Some c'" for c'
    using run_cache_grows[OF that] by (simp add: cache_find_def)
  moreover have "cache_insert c N m = c" if "cache_find c N = Some v" for c v m
    using that by (simp add: cache_find_def cache_insert_def)
  ultimately show ?thesis using run_inserts[of N s r as] by blast
qed

theorem write_once_cache_witness:
  "weak_turboModuleCache (snd (turboModuleProvider None ''Foo'' demo_state))
     = Some [''Foo'' \<mapsto> Some (DelegateModule 100)]
   \<and> weak_turboModuleCache (run None [Lookup ''Foo'', Lookup ''Legacy'', Lookup ''Foo'']
        (snd (turboModuleProvider None ''Foo'' demo_state)))
     = Some [''Foo'' \<mapsto> Some (DelegateModule 100), ''Legacy'' \<mapsto> Some (TurboCxxModule 0 40 1)]
   \<and> cache_find [''Foo'' \<mapsto> Some (DelegateModule 100), ''Legacy'' \<mapsto> Some (TurboCxxModule 0 40 1)]
        ''Foo'' = Some (Some (DelegateModule 100))
   \<and> inserts_of ''Foo'' (new_events demo_state
        (run None [Lookup ''Foo'', Lookup ''Foo'', Lookup ''Legacy'', Lookup ''Foo''] demo_state)) \<le> 1
   \<and> cache_insert [''Foo'' \<mapsto> Some (DelegateModule 100)] ''Foo'' None
     = [''Foo'' \<mapsto> Some (DelegateModule 100)]"
proof -
  let ?s1 = "snd (turboModuleProvider None ''Foo'' demo_state)"
  let ?as = "[Lookup ''Foo'', Lookup ''Legacy'', Lookup ''Foo'']"
  let ?c' = "[''Foo'' \<mapsto> Some (DelegateModule 100), ''Legacy'' \<mapsto> Some (TurboCxxModule 0 40 1)]"
  have end_cache: "weak_turboModuleCache (run None ?as ?s1) = Some ?c'"
    by (simp add: demo_foo) (simp add: demo_unfold provider_unfold)
  have before: "cache_find [''Foo'' \<mapsto> Some (DelegateModule 100)] ''Foo''
      = Some (Some (DelegateModule 100))"
    by (simp add: cache_find_def)
  from write_once_cache[of "''Foo''" ?s1 None ?as] end_cache demo_after_foo
  have kept: "\<forall>k v. cache_find [''Foo'' \<mapsto> Some (DelegateModule 100)] k = Some v
      \<longrightarrow> cache_find ?c' k = Some v"
    by (metis option.inject)
  with before have c1: "cache_find ?c' ''Foo'' = Some (Some (DelegateModule 100))" by blast
  have c2: "inserts_of ''Foo'' (new_events demo_state
        (run None [Lookup ''Foo'', Lookup ''Foo'', Lookup ''Legacy'', Lookup ''Foo''] demo_state)) \<le> 1"
    using write_once_cache[of "''Foo''" demo_state None
        "[Lookup ''Foo'', Lookup ''Foo'', Lookup ''Legacy'', Lookup ''Foo'']"] by blast
  have c3: "cache_insert [''Foo'' \<mapsto> Some (DelegateModule 100)] ''Foo'' None
     = [''Foo'' \<mapsto> Some (DelegateModule 100)]"
    using write_once_cache[of "''Foo''" ?s1 None ?as] before by blast
  from demo_after_foo end_cache c1 c2 c3 show ?thesis by blast
qed

section \<open>Routing of the legacy tier\<close>

text \<open>
  Claim C6 as stated says that the legacy provider is asked through the delegate that served
  the first tier. It is not: the lambda calls \<^verbatim>\<open>getLegacyCxxModule\<close> on \<^verbatim>\<open>javaPart\<close>, the Java
  manager object. In the concrete configuration the delegate has no answer for \<open>Legacy\<close>, the
  lookup returns an adapter, the effects contain the call on the Java part and no such
  call on the delegate, and with the same delegate but a Java part that knows no module the
  same lookup returns the null pointer.
\<close>

theorem legacy_via_delegate_counterexample:
  "fst (getTurboModule demo_delegate ''Legacy'' 1 (world demo_state)) = None
   \<and> fst (turboModuleProvider None ''Legacy'' demo_state) = Some (TurboCxxModule 0 40 1)
   \<and> Call Delegate (GetLegacyCxxModule ''Legacy'')
        \<notin> set (new_events demo_state (snd (turboModuleProvider None ''Legacy'' demo_state)))
   \<and> Call JavaPart (GetLegacyCxxModule ''Legacy'')
        \<in> set (new_events demo_state (snd (turboModuleProvider None ''Legacy'' demo_state)))
   \<and> weak_delegate (demo_state\<lparr>weak_javaPart := Some demo_silent_javaPart\<rparr>)
        = weak_delegate demo_state
   \<and> fst (turboModuleProvider None ''Legacy''
        (demo_state\<lparr>weak_javaPart := Some demo_silent_javaPart\<rparr>)) = None"
proof -
  have "fst (getTurboModule demo_delegate ''Legacy'' 1 (world demo_state)) = None"
    by (simp add: demo_delegate_def)
  moreover have "fst (turboModuleProvider None ''Legacy''
        (demo_state\<lparr>weak_javaPart := Some demo_silent_javaPart\<rparr>)) = None"
    by (simp add: demo_unfold demo_silent_javaPart_def provider_unfold)
  moreover have "new_events demo_state (snd (turboModuleProvider None ''Legacy'' demo_state)) =
      [PerfLog (ModuleJSRequireBeginningStart ''Legacy''),
          PerfLog (ModuleJSRequireBeginningEnd ''Legacy''),
          Call Delegate (GetTurboModule ''Legacy'' 1),
          Call JavaPart (GetLegacyCxxModule ''Legacy''),
          PerfLog (ModuleJSRequireEndingStart ''Legacy''),
          CacheInsert ''Legacy'' (Some (TurboCxxModule 0 40 1)),
          PerfLog (ModuleJSRequireEndingEnd ''Legacy'')]"
    by (simp add: demo_legacy new_events_def) (simp add: demo_unfold)
  ultimately show ?thesis by (simp add: demo_legacy)
qed

text \<open>
  Claim C6, amended. Let all five weak references lock, let \<open>N\<close> be absent from the cache and let
  the delegate's native fast path answer empty. The second provider asked is
  \<^verbatim>\<open>getLegacyCxxModule\<close> of the Java part (the owning manager object), in the world the delegate's
  call left. When it answers with a wrapper, the lambda makes a new \<^verbatim>\<open>TurboCxxModule\<close> from the
  wrapper's module and the JS invoker, inserts it under \<open>N\<close> between the ending-start and
  ending-end perf events, and returns it; \<^verbatim>\<open>getJavaModule\<close> is not called.
\<close>

theorem legacy_tier_routing:
  assumes "weak_turboModuleCache s = Some c" "weak_jsCallInvoker s = Some js"
    "weak_nativeCallInvoker s = Some nt" "weak_delegate s = Some d" "weak_javaPart s = Some jp"
    and miss: "cache_find c N = None"
    and native: "getTurboModule d N js (world s) = (None, w1)"
    and legacy: "getLegacyCxxModule jp N w1 = (Some legacyCxxModule, w2)"
  shows "turboModuleProvider r N s =
    (Some (TurboCxxModule (allocated s) legacyCxxModule js),
     s\<lparr>weak_turboModuleCache :=
         Some (cache_insert c N (Some (TurboCxxModule (allocated s) legacyCxxModule js))),
       world := w2,
       trace := trace s @
         [PerfLog (ModuleJSRequireBeginningStart N), PerfLog (ModuleJSRequireBeginningEnd N),
          Call Delegate (GetTurboModule N js), Call JavaPart (GetLegacyCxxModule N),
          PerfLog (ModuleJSRequireEndingStart N),
          CacheInsert N (Some (TurboCxxModule (allocated s) legacyCxxModule js)),
          PerfLog (ModuleJSRequireEndingEnd N)],
       allocated := Suc (allocated s)\<rparr>)
    \<and> cache_find (cache_insert c N (Some (TurboCxxModule (allocated s) legacyCxxModule js))) N
        = Some (Some (TurboCxxModule (allocated s) legacyCxxModule js))"
proof -
  from miss have "c N = None" by (simp add: cache_find_def)
  from provider_legacy[OF assms(1-5) this native legacy, of r] this show ?thesis
    by (simp add: cache_insert_def cache_find_def)
qed

theorem legacy_tier_routing_witness:
  "turboModuleProvider None ''Legacy'' demo_state =
    (Some (TurboCxxModule (allocated demo_state) 40 1),
     demo_state\<lparr>weak_turboModuleCache :=
         Some (cache_insert Map.empty ''Legacy''
           (Some (TurboCxxModule (allocated demo_state) 40 1))),
       world := 100,
       trace := trace demo_state @
         [PerfLog (ModuleJSRequireBeginningStart ''Legacy''),
          PerfLog (ModuleJSRequireBeginningEnd ''Legacy''),
          Call Delegate (GetTurboModule ''Legacy'' 1),
          Call JavaPart (GetLegacyCxxModule ''Legacy''),
          PerfLog (ModuleJSRequireEndingStart ''Legacy''),
          CacheInsert ''Legacy'' (Some (TurboCxxModule (allocated demo_state) 40 1)),
          PerfLog (ModuleJSRequireEndingEnd ''Legacy'')],
       allocated := Suc (allocated demo_state)\<rparr>)"
proof -
  have miss: "cache_find Map.empty ''Legacy'' = None" by (simp add: cache_find_def)
  have n: "getTurboModule demo_delegate ''Legacy'' 1 (world demo_state) = (None, 100)"
    by (simp add: demo_unfold)
  have g: "getLegacyCxxModule demo_javaPart ''Legacy'' 100 = (Some 40, 100)"
    by (simp add: demo_javaPart_def)
  from legacy_tier_routing[OF demo_locked miss n g, of None] show ?thesis by blast
qed

section \<open>Instrumentation of the native fast path\<close>

text \<open>
  Claim C7 as stated says that a lookup satisfied by the native fast path records an end
  event before it returns. In the concrete configuration the lookup of \<open>Foo\<close> misses the
  cache and is satisfied by the delegate; its perf events are the beginning-start and
  beginning-end events only, both recorded before the delegate is called, and nothing is
  logged between the delegate's answer and the return.
\<close>

theorem native_end_event_counterexample:
  "cache_find Map.empty ''Foo'' = None
   \<and> fst (turboModuleProvider None ''Foo'' demo_state) = Some (DelegateModule 100)
   \<and> new_events demo_state (snd (turboModuleProvider None ''Foo'' demo_state)) =
       [PerfLog (ModuleJSRequireBeginningStart ''Foo''),
        PerfLog (ModuleJSRequireBeginningEnd ''Foo''),
        Call Delegate (GetTurboModule ''Foo'' 1),
        CacheInsert ''Foo'' (Some (DelegateModule 100))]
   \<and> perf_events (new_events demo_state (snd (turboModuleProvider None ''Foo'' demo_state))) =
       [ModuleJSRequireBeginningStart ''Foo'', ModuleJSRequireBeginningEnd ''Foo'']
   \<and> ModuleJSRequireEndingEnd ''Foo''
        \<notin> set (perf_events (new_events demo_state (snd (turboModuleProvider None ''Foo'' demo_state))))"
proof -
  have "new_events demo_state (snd (turboModuleProvider None ''Foo'' demo_state)) =
       [PerfLog (ModuleJSRequireBeginningStart ''Foo''),
        PerfLog (ModuleJSRequireBeginningEnd ''Foo''),
        Call Delegate (GetTurboModule ''Foo'' 1),
        CacheInsert ''Foo'' (Some (DelegateModule 100))]"
    by (simp add: demo_foo new_events_def) (simp add: demo_unfold)
  then show ?thesis by (simp add: demo_foo cache_find_def)
qed

text \<open>
  Claim C7, amended. A lookup that misses the cache and is satisfied by the native fast path
  records exactly two perf events, \<^verbatim>\<open>moduleJSRequireBeginningStart\<close> and
  \<^verbatim>\<open>moduleJSRequireBeginningEnd\<close>, both before the delegate is called; no ending event is
  recorded. Every lookup records one of four sequences of perf events, and which one is
  fixed by its path, for every state and every name: none when the guard fails; start,
  cache hit, end of the beginning phase on a hit; start and end of the beginning phase when
  no provider answers; these two followed by \<^verbatim>\<open>moduleJSRequireEndingStart\<close> and
  \<^verbatim>\<open>moduleJSRequireEndingEnd\<close>, which bracket the cache insert, when the legacy tier or the
  Java tier answers. For each path the theorem gives the full list of effects, so the place
  of every perf event among the provider calls and the insert is fixed as well.
\<close>

theorem native_fast_path_instrumentation:
  assumes "weak_turboModuleCache (s :: 'w resolver_state) = Some c" "weak_jsCallInvoker s = Some js"
    "weak_nativeCallInvoker s = Some nt" "weak_delegate s = Some d" "weak_javaPart s = Some jp"
    and miss: "cache_find c N = None"
    and native: "getTurboModule d N js (world s) = (Some m, w1)"
  shows "fst (turboModuleProvider r N s) = Some m
    \<and> new_events s (snd (turboModuleProvider r N s)) =
        [PerfLog (ModuleJSRequireBeginningStart N), PerfLog (ModuleJSRequireBeginningEnd N),
         Call Delegate (GetTurboModule N js), CacheInsert N (Some m)]
    \<and> perf_events (new_events s (snd (turboModuleProvider r N s))) =
        [ModuleJSRequireBeginningStart N, ModuleJSRequireBeginningEnd N]
    \<and> (\<forall>t :: 'w resolver_state. perf_events (new_events t (snd (turboModuleProvider r N t))) \<in>
         {[],
          [ModuleJSRequireBeginningStart N, ModuleJSRequireBeginningCacheHit N,
           ModuleJSRequireBeginningEnd N],
          [ModuleJSRequireBeginningStart N, ModuleJSRequireBeginningEnd N],
          [ModuleJSRequireBeginningStart N, ModuleJSRequireBeginningEnd N,
           ModuleJSRequireEndingStart N, ModuleJSRequireEndingEnd N]})
    \<and> (\<forall>(t :: 'w resolver_state) n. weak_turboModuleCache t = None \<or> weak_jsCallInvoker t = None
            \<or> weak_nativeCallInvoker t = None \<or> weak_delegate t = None
            \<or> weak_javaPart t = None
          \<longrightarrow> new_events t (snd (turboModuleProvider r n t)) = []
            \<and> perf_events (new_events t (snd (turboModuleProvider r n t))) = [])
    \<and> (\<forall>(t :: 'w resolver_state) n ct jst ntt dt jpt found.
          weak_turboModuleCache t = Some ct \<and> weak_jsCallInvoker t = Some jst
          \<and> weak_nativeCallInvoker t = Some ntt \<and> weak_delegate t = Some dt
          \<and> weak_javaPart t = Some jpt \<and> cache_find ct n = Some found
          \<longrightarrow> new_events t (snd (turboModuleProvider r n t)) =
               [PerfLog (ModuleJSRequireBeginningStart n),
                PerfLog (ModuleJSRequireBeginningCacheHit n),
                PerfLog (ModuleJSRequireBeginningEnd n)]
            \<and> perf_events (new_events t (snd (turboModuleProvider r n t))) =
               [ModuleJSRequireBeginningStart n, ModuleJSRequireBeginningCacheHit n,
                ModuleJSRequireBeginningEnd n])
    \<and> (\<forall>(t :: 'w resolver_state) n ct jst ntt dt jpt v1 v2 legacyCxxModule.
          weak_turboModuleCache t = Some ct \<and> weak_jsCallInvoker t = Some jst
          \<and> weak_nativeCallInvoker t = Some ntt \<and> weak_delegate t = Some dt
          \<and> weak_javaPart t = Some jpt \<and> cache_find ct n = None
          \<and> getTurboModule dt n jst (world t) = (None, v1)
          \<and> getLegacyCxxModule jpt n v1 = (Some legacyCxxModule, v2)
          \<longrightarrow> new_events t (snd (turboModuleProvider r n t)) =
               [PerfLog (ModuleJSRequireBeginningStart n),
                PerfLog (ModuleJSRequireBeginningEnd n),
                Call Delegate (GetTurboModule n jst), Call JavaPart (GetLegacyCxxModule n),
                PerfLog (ModuleJSRequireEndingStart n),
                CacheInsert n (Some (TurboCxxModule (allocated t) legacyCxxModule jst)),
                PerfLog (ModuleJSRequireEndingEnd n)]
            \<and> perf_events (new_events t (snd (turboModuleProvider r n t))) =
               [ModuleJSRequireBeginningStart n, ModuleJSRequireBeginningEnd n,
                ModuleJSRequireEndingStart n, ModuleJSRequireEndingEnd n])
    \<and> (\<forall>(t :: 'w resolver_state) n ct jst ntt dt jpt v1 v2 v3 v4 moduleInstance turboModule.
          weak_turboModuleCache t = Some ct \<and> weak_jsCallInvoker t = Some jst
          \<and> weak_nativeCallInvoker t = Some ntt \<and> weak_delegate t = Some dt
          \<and> weak_javaPart t = Some jpt \<and> cache_find ct n = None
          \<and> getTurboModule dt n jst (world t) = (None, v1)
          \<and> getLegacyCxxModule jpt n v1 = (None, v2)
          \<and> getJavaModule jpt n v2 = (Some moduleInstance, v3)
          \<and> getTurboModuleJava dt n
                \<lparr>params_moduleName = n, params_instance = moduleInstance,
                 params_jsInvoker = jst, params_nativeInvoker = ntt,
                 params_retainJSCallback = r\<rparr> v3 = (turboModule, v4)
          \<longrightarrow> new_events t (snd (turboModuleProvider r n t)) =
               [PerfLog (ModuleJSRequireBeginningStart n),
                PerfLog (ModuleJSRequireBeginningEnd n),
                Call Delegate (GetTurboModule n jst), Call JavaPart (GetLegacyCxxModule n),
                Call JavaPart (GetJavaModule n),
                PerfLog (ModuleJSRequireEndingStart n),
                Call Delegate (GetTurboModuleJava n
                  \<lparr>params_moduleName = n, params_instance = moduleInstance,
                   params_jsInvoker = jst, params_nativeInvoker = ntt,
                   params_retainJSCallback = r\<rparr>),
                CacheInsert n turboModule,
                PerfLog (ModuleJSRequireEndingEnd n)]
            \<and> perf_events (new_events t (snd (turboModuleProvider r n t))) =
               [ModuleJSRequireBeginningStart n, ModuleJSRequireBeginningEnd n,
                ModuleJSRequireEndingStart n, ModuleJSRequireEndingEnd n])
    \<and> (\<forall>(t :: 'w resolver_state) n ct jst ntt dt jpt v1 v2 v3.
          weak_turboModuleCache t = Some ct \<and> weak_jsCallInvoker t = Some jst
          \<and> weak_nativeCallInvoker t = Some ntt \<and> weak_delegate t = Some dt
          \<and> weak_javaPart t = Some jpt \<and> cache_find ct n = None
          \<and> getTurboModule dt n jst (world t) = (None, v1)
          \<and> getLegacyCxxModule jpt n v1 = (None, v2)
          \<and> getJavaModule jpt n v2 = (None, v3)
          \<longrightarrow> new_events t (snd (turboModuleProvider r n t)) =
               [PerfLog (ModuleJSRequireBeginningStart n),
                PerfLog (ModuleJSRequireBeginningEnd n),
                Call Delegate (GetTurboModule n jst), Call JavaPart (GetLegacyCxxModule n),
                Call JavaPart (GetJavaModule n)]
            \<and> perf_events (new_events t (snd (turboModuleProvider r n t))) =
               [ModuleJSRequireBeginningStart n, ModuleJSRequireBeginningEnd n])"
proof -
  from miss have cN: "c N = None" by (simp add: cache_find_def)
  from provider_native[OF assms(1-5) cN native, of r]
  have n1: "fst (turboModuleProvider r N s) = Some m"
    and n2: "new_events s (snd (turboModuleProvider r N s)) =
        [PerfLog (ModuleJSRequireBeginningStart N), PerfLog (ModuleJSRequireBeginningEnd N),
         Call Delegate (GetTurboModule N js), CacheInsert N (Some m)]"
    by (simp_all add: new_events_def)
  from n2 have n3: "perf_events (new_events s (snd (turboModuleProvider r N s))) =
        [ModuleJSRequireBeginningStart N, ModuleJSRequireBeginningEnd N]"
    by simp
  show ?thesis
    apply (intro conjI allI impI)
    subgoal by (rule n1)
    subgoal by (rule n2)
    subgoal by (rule n3)
    subgoal by (rule provider_perf_shapes)
    subgoal by (rule events_unlocked)
    subgoal by (simp add: events_unlocked)
    subgoal by (elim conjE) (rule events_hit)
    subgoal by (elim conjE) (simp add: events_hit)
    subgoal by (elim conjE) (rule events_legacy)
    subgoal by (elim conjE) (simp add: events_legacy)
    subgoal by (elim conjE) (rule events_managed)
    subgoal by (elim conjE) (simp add: events_managed)
    subgoal by (elim conjE) (rule events_not_found)
    subgoal by (elim conjE) (simp add: events_not_found)
    done
qed

theorem native_fast_path_instrumentation_witness:
  "perf_events (new_events demo_state (snd (turboModuleProvider None ''Foo'' demo_state))) =
     [ModuleJSRequireBeginningStart ''Foo'', ModuleJSRequireBeginningEnd ''Foo'']
   \<and> perf_events (new_events (snd (turboModuleProvider None ''Foo'' demo_state))
        (snd (turboModuleProvider None ''Foo'' (snd (turboModuleProvider None ''Foo'' demo_state))))) =
     [ModuleJSRequireBeginningStart ''Foo'', ModuleJSRequireBeginningCacheHit ''Foo'',
      ModuleJSRequireBeginningEnd ''Foo'']
   \<and> perf_events (new_events demo_state (snd (turboModuleProvider None ''Legacy'' demo_state))) =
     [ModuleJSRequireBeginningStart ''Legacy'', ModuleJSRequireBeginningEnd ''Legacy'',
      ModuleJSRequireEndingStart ''Legacy'', ModuleJSRequireEndingEnd ''Legacy'']
   \<and> perf_events (new_events demo_state (snd (turboModuleProvider None ''Bar'' demo_state))) =
     [ModuleJSRequireBeginningStart ''Bar'', ModuleJSRequireBeginningEnd ''Bar'',
      ModuleJSRequireEndingStart ''Bar'', ModuleJSRequireEndingEnd ''Bar'']
   \<and> perf_events (new_events demo_state (snd (turboModuleProvider None ''Nope'' demo_state))) =
     [ModuleJSRequireBeginningStart ''Nope'', ModuleJSRequireBeginningEnd ''Nope'']
   \<and> perf_events (new_events (destroy TheJavaPart demo_state)
        (snd (turboModuleProvider None ''Foo'' (destroy TheJavaPart demo_state)))) = []"
proof -
  have miss: "cache_find Map.empty ''Foo'' = None" by (simp add: cache_find_def)
  have native: "getTurboModule demo_delegate ''Foo'' 1 (world demo_state)
      = (Some (DelegateModule 100), 101)"
    by (simp add: demo_unfold)
  note T = native_fast_path_instrumentation[OF demo_locked miss native, of None]
  note on_guard = T[THEN conjunct2, THEN conjunct2, THEN conjunct2, THEN conjunct2, THEN conjunct1, rule_format]
  note on_hit = T[THEN conjunct2, THEN conjunct2, THEN conjunct2, THEN conjunct2, THEN conjunct2, THEN conjunct1, rule_format]
  note on_legacy = T[THEN conjunct2, THEN conjunct2, THEN conjunct2, THEN conjunct2, THEN conjunct2, THEN conjunct2, THEN conjunct1, rule_format]
  note on_managed = T[THEN conjunct2, THEN conjunct2, THEN conjunct2, THEN conjunct2, THEN conjunct2, THEN conjunct2, THEN conjunct2, THEN conjunct1, rule_format]
  note on_not_found = T[THEN conjunct2, THEN conjunct2, THEN conjunct2, THEN conjunct2, THEN conjunct2, THEN conjunct2, THEN conjunct2, THEN conjunct2, rule_format]
  have foo: "perf_events (new_events demo_state (snd (turboModuleProvider None ''Foo'' demo_state))) =
     [ModuleJSRequireBeginningStart ''Foo'', ModuleJSRequireBeginningEnd ''Foo'']"
    using T by blast
  let ?s1 = "snd (turboModuleProvider None ''Foo'' demo_state)"
  have "weak_turboModuleCache ?s1 = Some [''Foo'' \<mapsto> Some (DelegateModule 100)]
    \<and> weak_jsCallInvoker ?s1 = Some 1 \<and> weak_nativeCallInvoker ?s1 = Some 2
    \<and> weak_delegate ?s1 = Some demo_delegate \<and> weak_javaPart ?s1 = Some demo_javaPart
    \<and> cache_find [''Foo'' \<mapsto> Some (DelegateModule 100)] ''Foo''
        = Some (Some (DelegateModule 100))"
    using demo_locked by (simp add: demo_foo cache_find_def)
  from on_hit[OF this]
  have hit: "perf_events (new_events ?s1 (snd (turboModuleProvider None ''Foo'' ?s1))) =
     [ModuleJSRequireBeginningStart ''Foo'', ModuleJSRequireBeginningCacheHit ''Foo'',
      ModuleJSRequireBeginningEnd ''Foo'']"
    by (rule conjunct2)
  have "weak_turboModuleCache demo_state = Some Map.empty
    \<and> weak_jsCallInvoker demo_state = Some 1 \<and> weak_nativeCallInvoker demo_state = Some 2
    \<and> weak_delegate demo_state = Some demo_delegate
    \<and> weak_javaPart demo_state = Some demo_javaPart
    \<and> cache_find Map.empty ''Legacy'' = None
    \<and> getTurboModule demo_delegate ''Legacy'' 1 (world demo_state) = (None, 100)
    \<and> getLegacyCxxModule demo_javaPart ''Legacy'' 100 = (Some 40, 100)"
    using demo_locked by (simp add: cache_find_def demo_unfold)
  from on_legacy[OF this]
  have legacy: "perf_events (new_events demo_state (snd (turboModuleProvider None ''Legacy'' demo_state))) =
     [ModuleJSRequireBeginningStart ''Legacy'', ModuleJSRequireBeginningEnd ''Legacy'',
      ModuleJSRequireEndingStart ''Legacy'', ModuleJSRequireEndingEnd ''Legacy'']"
    by (rule conjunct2)
  have "weak_turboModuleCache demo_state = Some Map.empty
    \<and> weak_jsCallInvoker demo_state = Some 1 \<and> weak_nativeCallInvoker demo_state = Some 2
    \<and> weak_delegate demo_state = Some demo_delegate
    \<and> weak_javaPart demo_state = Some demo_javaPart
    \<and> cache_find Map.empty ''Bar'' = None
    \<and> getTurboModule demo_delegate ''Bar'' 1 (world demo_state) = (None, 100)
    \<and> getLegacyCxxModule demo_javaPart ''Bar'' 100 = (None, 100)
    \<and> getJavaModule demo_javaPart ''Bar'' 100 = (Some 50, 100)
    \<and> getTurboModuleJava demo_delegate ''Bar''
        \<lparr>params_moduleName = ''Bar'', params_instance = 50, params_jsInvoker = 1,
         params_nativeInvoker = 2, params_retainJSCallback = None\<rparr> 100
       = (Some (DelegateModule 100), 101)"
    using demo_locked by (simp add: cache_find_def demo_unfold)
  from on_managed[OF this]
  have managed: "perf_events (new_events demo_state (snd (turboModuleProvider None ''Bar'' demo_state))) =
     [ModuleJSRequireBeginningStart ''Bar'', ModuleJSRequireBeginningEnd ''Bar'',
      ModuleJSRequireEndingStart ''Bar'', ModuleJSRequireEndingEnd ''Bar'']"
    by (rule conjunct2)
  have "weak_turboModuleCache demo_state = Some Map.empty
    \<and> weak_jsCallInvoker demo_state = Some 1 \<and> weak_nativeCallInvoker demo_state = Some 2
    \<and> weak_delegate demo_state = Some demo_delegate
    \<and> weak_javaPart demo_state = Some demo_javaPart
    \<and> cache_find Map.empty ''Nope'' = None
    \<and> getTurboModule demo_delegate ''Nope'' 1 (world demo_state) = (None, 100)
    \<and> getLegacyCxxModule demo_javaPart ''Nope'' 100 = (None, 100)
    \<and> getJavaModule demo_javaPart ''Nope'' 100 = (None, 100)"
    using demo_locked by (simp add: cache_find_def demo_unfold)
  from on_not_found[OF this]
  have nf: "perf_events (new_events demo_state (snd (turboModuleProvider None ''Nope'' demo_state))) =
     [ModuleJSRequireBeginningStart ''Nope'', ModuleJSRequireBeginningEnd ''Nope'']"
    by (rule conjunct2)
  let ?dead = "destroy TheJavaPart demo_state"
  have "weak_turboModuleCache ?dead = None \<or> weak_jsCallInvoker ?dead = None
     \<or> weak_nativeCallInvoker ?dead = None \<or> weak_delegate ?dead = None
     \<or> weak_javaPart ?dead = None"
    by simp
  from on_guard[OF this]
  have guard: "perf_events (new_events ?dead (snd (turboModuleProvider None ''Foo'' ?dead))) = []"
    by (rule conjunct2)
  from foo hit legacy managed nf guard show ?thesis by blast
qed

section \<open>The callback retention policy\<close>

text \<open>
  Claim C8. The constructor leaves the manager in exactly one of three configurations, fixed
  by its two flags: the global factory and no collection; a new, empty collection owned by
  the manager, and the factory that captured it; or no factory and no collection when
  neither flag is set. Nothing changes the choice afterwards: \<^verbatim>\<open>installJSIBindings\<close> hands on
  the same factory and collection, and in every run of the installed lambda each
  \<^verbatim>\<open>InitParams\<close> passed to the delegate carries that factory. When the manager has a collection,
  every callback retained through its factory is wrapped and registered in that collection,
  and the process-wide collection is left alone.
\<close>

theorem retention_policy_selection:
  assumes ctor: "TurboModuleManager jThis runtimeExecutor js nt d useGlobal useScoped h = (this, h')"
  shows "(this_retainJSCallback this, this_longLivedObjectCollection this, h') =
      (if useGlobal then (Some RetainGlobal, None, h)
       else if useScoped then
         (Some (RetainInCollection (nextCollection h)), Some (nextCollection h),
          snd (make_collection h))
       else (None, None, h))
    \<and> (\<forall>b. installJSIBindings this = Some b \<longrightarrow>
          provider_retainJSCallback b = this_retainJSCallback this
          \<and> binding_longLivedObjectCollection b = this_longLivedObjectCollection this)
    \<and> (\<forall>as (s :: 'w resolver_state).
          \<forall>p \<in> set (init_params_of (new_events s (run (this_retainJSCallback this) as s))).
            params_retainJSCallback p = this_retainJSCallback this)
    \<and> (\<not> useGlobal \<and> \<not> useScoped \<longrightarrow> this_retainJSCallback this = None)
    \<and> (\<not> useGlobal \<and> useScoped \<longrightarrow>
          this_longLivedObjectCollection this = Some (nextCollection h)
          \<and> ownedCollections h' (nextCollection h) = Some [])
    \<and> (\<forall>retain collection callback runtime jsInvoker h1 wrapper h2.
          this_retainJSCallback this = Some retain
          \<and> this_longLivedObjectCollection this = Some collection
          \<and> call_retainJSCallback retain callback runtime jsInvoker h1 = (wrapper, h2)
          \<longrightarrow> wrapper = (callback, runtime, jsInvoker)
            \<and> (\<exists>ws. ownedCollections h2 collection = Some ws \<and> wrapper \<in> set ws)
            \<and> globalCollection h2 = globalCollection h1)"
proof -
  have sel: "(this_retainJSCallback this, this_longLivedObjectCollection this, h') =
      (if useGlobal then (Some RetainGlobal, None, h)
       else if useScoped then
         (Some (RetainInCollection (nextCollection h)), Some (nextCollection h),
          snd (make_collection h))
       else (None, None, h))"
    using ctor by (auto simp: TurboModuleManager_def make_collection_def Let_def split: if_splits)
  have inst: "\<forall>b. installJSIBindings this = Some b \<longrightarrow>
          provider_retainJSCallback b = this_retainJSCallback this
          \<and> binding_longLivedObjectCollection b = this_longLivedObjectCollection this"
    by (auto simp: installJSIBindings_def split: if_splits)
  have params: "\<forall>as (s :: 'w resolver_state).
          \<forall>p \<in> set (init_params_of (new_events s (run (this_retainJSCallback this) as s))).
            params_retainJSCallback p = this_retainJSCallback this"
    using run_init_params by blast
  have none: "\<not> useGlobal \<and> \<not> useScoped \<longrightarrow> this_retainJSCallback this = None"
    using sel by (auto split: if_splits)
  have scoped: "\<not> useGlobal \<and> useScoped \<longrightarrow>
          this_longLivedObjectCollection this = Some (nextCollection h)
          \<and> ownedCollections h' (nextCollection h) = Some []"
    using sel by (auto simp: make_collection_def split: if_splits)
  have reg: "wrapper = (callback, runtime, jsInvoker)
            \<and> (\<exists>ws. ownedCollections h2 collection = Some ws \<and> wrapper \<in> set ws)
            \<and> globalCollection h2 = globalCollection h1"
    if "this_retainJSCallback this = Some retain"
      "this_longLivedObjectCollection this = Some collection"
      "call_retainJSCallback retain callback runtime jsInvoker h1 = (wrapper, h2)"
    for retain collection callback runtime jsInvoker h1 wrapper h2
  proof -
    from sel that(1,2) have "retain = RetainInCollection collection"
      by (auto split: if_splits)
    with that(3) show ?thesis
      by (auto simp: createWeak_def Let_def split: option.splits)
  qed
  from sel inst params none scoped reg show ?thesis by blast
qed

theorem retention_policy_selection_witness:
  "this_retainJSCallback (fst (demo_manager False True)) = Some (RetainInCollection 0)
   \<and> this_longLivedObjectCollection (fst (demo_manager False True)) = Some 0
   \<and> ownedCollections (snd (demo_manager False True)) 0 = Some []
   \<and> ownedCollections (snd (call_retainJSCallback (RetainInCollection 0) 7 3 1
        (snd (demo_manager False True)))) 0 = Some [(7, 3, 1)]
   \<and> this_retainJSCallback (fst (demo_manager False False)) = None
   \<and> this_retainJSCallback (fst (demo_manager True False)) = Some RetainGlobal
   \<and> map params_retainJSCallback (init_params_of (new_events
        (captured_state (fst (demo_manager False True)) 100)
        (run (this_retainJSCallback (fst (demo_manager False True))) [Lookup ''Bar'']
           (captured_state (fst (demo_manager False True)) 100))))
      = [Some (RetainInCollection 0)]"
proof -
  let ?m = "fst (demo_manager False True)" and ?h = "snd (demo_manager False True)"
  have ctor: "TurboModuleManager demo_javaPart 9 (Some 1) (Some 2) demo_delegate False True
      demo_heap = (?m, ?h)"
    by (simp add: demo_manager_def)
  have ctor0: "TurboModuleManager demo_javaPart 9 (Some 1) (Some 2) demo_delegate False False
      demo_heap = (fst (demo_manager False False), snd (demo_manager False False))"
    by (simp add: demo_manager_def)
  have ctor1: "TurboModuleManager demo_javaPart 9 (Some 1) (Some 2) demo_delegate True False
      demo_heap = (fst (demo_manager True False), snd (demo_manager True False))"
    by (simp add: demo_manager_def)
  have "ownedCollections ?h (nextCollection demo_heap) = Some []"
    using retention_policy_selection[OF ctor] by blast
  then have a: "ownedCollections ?h 0 = Some []"
    by (simp add: demo_heap_def)
  have b: "this_retainJSCallback (fst (demo_manager False False)) = None"
    using retention_policy_selection[OF ctor0] by blast
  have "(this_retainJSCallback (fst (demo_manager True False)),
         this_longLivedObjectCollection (fst (demo_manager True False)),
         snd (demo_manager True False)) = (Some RetainGlobal, None, demo_heap)"
    using retention_policy_selection[OF ctor1] by auto
  then have c: "this_retainJSCallback (fst (demo_manager True False)) = Some RetainGlobal"
    by simp
  have d: "ownedCollections (snd (call_retainJSCallback (RetainInCollection 0) 7 3 1 ?h)) 0
      = Some [(7, 3, 1)]"
    by (simp add: demo_scoped_manager createWeak_def Let_def)
  have e: "map params_retainJSCallback (init_params_of (new_events
        (captured_state ?m 100)
        (run (this_retainJSCallback ?m) [Lookup ''Bar''] (captured_state ?m 100))))
      = [Some (RetainInCollection 0)]"
    by (simp add: demo_manager_def TurboModuleManager_def make_collection_def demo_heap_def
        captured_state_def demo_delegate_def demo_javaPart_def provider_unfold new_events_def)
  from a b c d e demo_scoped_manager(1,2) show ?thesis by blast
qed

section \<open>Precedence of the two construction flags\<close>

text \<open>
  Claim C9. When both flags are true the constructor takes the first branch: the factory is
  the one of the global strategy, the member \<^verbatim>\<open>longLivedObjectCollection_\<close> is null, and the heap
  of collections is unchanged, so no manager-owned collection is made.
\<close>

theorem retention_flag_precedence:
  "this_retainJSCallback
      (fst (TurboModuleManager jThis runtimeExecutor js nt d True True h)) = Some RetainGlobal
   \<and> this_longLivedObjectCollection
      (fst (TurboModuleManager jThis runtimeExecutor js nt d True True h)) = None
   \<and> snd (TurboModuleManager jThis runtimeExecutor js nt d True True h) = h"
  by (simp add: TurboModuleManager_def)

theorem retention_flag_precedence_witness:
  "this_retainJSCallback (fst (demo_manager True True)) = Some RetainGlobal
   \<and> this_longLivedObjectCollection (fst (demo_manager True True)) = None
   \<and> snd (demo_manager True True) = demo_heap
   \<and> ownedCollections (snd (demo_manager True True)) = Map.empty
   \<and> ownedCollections (snd (demo_manager False True)) = [0 \<mapsto> []]"
proof -
  have "ownedCollections (snd (demo_manager False True)) = [0 \<mapsto> []]"
    by (simp add: demo_manager_def TurboModuleManager_def make_collection_def demo_heap_def)
  moreover have "ownedCollections demo_heap = Map.empty" by (simp add: demo_heap_def)
  ultimately show ?thesis
    using retention_flag_precedence[of demo_javaPart 9 "Some 1" "Some 2" demo_delegate demo_heap]
    by (simp add: demo_manager_def)
qed

section \<open>The Java tier inserts without a null check\<close>

text \<open>
  Claim C10. Let all five weak references lock, let \<open>N\<close> be absent from the cache, let the first
  two providers answer empty and let \<^verbatim>\<open>getJavaModule\<close> answer with an instance. Whatever pointer
  \<^verbatim>\<open>getTurboModule(name, params)\<close> of the delegate yields, null or not, is inserted under \<open>N\<close>
  and returned; the next lookup of \<open>N\<close> is a cache hit that returns the same pointer. With a null
  pointer the cache therefore holds an empty entry for \<open>N\<close>.
\<close>

theorem managed_insert_unconditional:
  assumes "weak_turboModuleCache s = Some c" "weak_jsCallInvoker s = Some js"
    "weak_nativeCallInvoker s = Some nt" "weak_delegate s = Some d" "weak_javaPart s = Some jp"
    and miss: "cache_find c N = None"
    and native: "getTurboModule d N js (world s) = (None, w1)"
    and legacy: "getLegacyCxxModule jp N w1 = (None, w2)"
    and managed: "getJavaModule jp N w2 = (Some moduleInstance, w3)"
    and built: "getTurboModuleJava d N
        \<lparr>params_moduleName = N, params_instance = moduleInstance, params_jsInvoker = js,
         params_nativeInvoker = nt, params_retainJSCallback = r\<rparr> w3 = (turboModule, w4)"
  shows "fst (turboModuleProvider r N s) = turboModule
    \<and> weak_turboModuleCache (snd (turboModuleProvider r N s))
        = Some (cache_insert c N turboModule)
    \<and> cache_find (cache_insert c N turboModule) N = Some turboModule
    \<and> fst (turboModuleProvider r N (snd (turboModuleProvider r N s))) = turboModule
    \<and> new_events (snd (turboModuleProvider r N s))
         (snd (turboModuleProvider r N (snd (turboModuleProvider r N s)))) =
        [PerfLog (ModuleJSRequireBeginningStart N), PerfLog (ModuleJSRequireBeginningCacheHit N),
         PerfLog (ModuleJSRequireBeginningEnd N)]"
proof -
  from miss have cN: "c N = None" by (simp add: cache_find_def)
  let ?s' = "snd (turboModuleProvider r N s)"
  from provider_managed[OF assms(1-5) cN native legacy managed refl built]
  have first: "fst (turboModuleProvider r N s) = turboModule"
    and cache': "weak_turboModuleCache ?s' = Some (c(N \<mapsto> turboModule))"
    and refs: "weak_jsCallInvoker ?s' = Some js" "weak_nativeCallInvoker ?s' = Some nt"
      "weak_delegate ?s' = Some d" "weak_javaPart ?s' = Some jp"
    using assms(2-5) by simp_all
  have ins: "cache_insert c N turboModule = c(N \<mapsto> turboModule)"
    using cN by (simp add: cache_insert_def)
  have "(c(N \<mapsto> turboModule)) N = Some turboModule" by simp
  from provider_hit[OF cache' refs this, of r] first cache' ins show ?thesis
    by (simp add: new_events_def cache_find_def)
qed

theorem managed_insert_unconditional_witness:
  "fst (turboModuleProvider None ''Null'' demo_state) = None
   \<and> weak_turboModuleCache (snd (turboModuleProvider None ''Null'' demo_state))
        = Some (cache_insert Map.empty ''Null'' None)
   \<and> cache_find (cache_insert Map.empty ''Null'' None) ''Null'' = Some None
   \<and> fst (turboModuleProvider None ''Null'' (snd (turboModuleProvider None ''Null'' demo_state)))
       = None"
proof -
  have miss: "cache_find Map.empty ''Null'' = None" by (simp add: cache_find_def)
  have n: "getTurboModule demo_delegate ''Null'' 1 (world demo_state) = (None, 100)"
    by (simp add: demo_unfold)
  have g: "getLegacyCxxModule demo_javaPart ''Null'' 100 = (None, 100)"
    by (simp add: demo_javaPart_def)
  have j: "getJavaModule demo_javaPart ''Null'' 100 = (Some 50, 100)"
    by (simp add: demo_javaPart_def)
  have b: "getTurboModuleJava demo_delegate ''Null''
        \<lparr>params_moduleName = ''Null'', params_instance = 50, params_jsInvoker = 1,
         params_nativeInvoker = 2, params_retainJSCallback = None\<rparr> 100 = (None, 100)"
    by (simp add: demo_delegate_def)
  from managed_insert_unconditional[OF demo_locked miss n g j b] show ?thesis by blast
qed

end
